theory Spec2Isabelle
  imports Complex_Main "HOL-Library.Sublist"
begin

section \<open>Credential records\<close>

text \<open>
  The key pool of \<^verbatim>\<open>src/shared/key-management/{groq,openrouter}/provider.ts\<close> and the
  probe error hooks of the two \<^verbatim>\<open>checker.ts\<close> files, embedded as functions on an explicit
  pool (the array \<^verbatim>\<open>this.keys\<close>). Conventions:
  \<^item> \<^verbatim>\<open>Date.now()\<close> is the argument \<open>now\<close> of every operation that reads the clock; an
    operation is one synchronous step and sees one reading;
  \<^item> a thrown exception is \<open>Inl\<close> of the result, a normal return \<open>Inr\<close> with the new pool;
  \<^item> the pool holds object references, and \<^verbatim>\<open>find\<close>, \<^verbatim>\<open>filter\<close> and \<^verbatim>\<open>sort\<close> hand those
    references around; the model works on positions of the array instead, so that a write
    through a reference is a write at that position;
  \<^item> timestamps and counters are JavaScript numbers holding integers (\<open>int\<close>); the balance
    of the tiered provider is a JavaScript number modelled as a rational, without NaN and
    the infinities;
  \<^item> the constant tag \<^verbatim>\<open>service\<close>, the logger and the unused parameter \<^verbatim>\<open>streaming\<close> are
    left out.
\<close>

datatype error = TypeError | PaymentRequiredError string

text \<open>The token counters \<^verbatim>\<open>{ input, output }\<close> of one model family.\<close>

record Usage =
  inputTokens :: int
  outputTokens :: int

text \<open>
  The fields shared by \<^verbatim>\<open>GroqKey\<close> and \<^verbatim>\<open>OpenRouterKey\<close>; \<open>'s\<close> is the provider's status
  enumeration. \<open>key\<close> is optional because \<^verbatim>\<open>list()\<close> overwrites it with \<^verbatim>\<open>undefined\<close>.
  An absent \<^verbatim>\<open>tokenUsage\<close> object is the empty map.
\<close>

record 's Key =
  key :: "string option"
  hash :: string
  modelFamilies :: "string list"
  isDisabled :: bool
  isRevoked :: bool
  isOverQuota :: bool
  promptCount :: int
  lastUsed :: int
  rateLimitedAt :: int
  rateLimitedUntil :: int
  lastChecked :: int
  tokenUsage :: "string \<rightharpoonup> Usage"
  status :: 's
  info :: string

text \<open>
  \<^verbatim>\<open>Partial<Key>\<close>: every field optional, \<open>None\<close> for a property the object does not have.
\<close>

record 's KeyUpdate =
  key' :: "string option"
  hash' :: "string option"
  modelFamilies' :: "string list option"
  isDisabled' :: "bool option"
  isRevoked' :: "bool option"
  isOverQuota' :: "bool option"
  promptCount' :: "int option"
  lastUsed' :: "int option"
  rateLimitedAt' :: "int option"
  rateLimitedUntil' :: "int option"
  lastChecked' :: "int option"
  tokenUsage' :: "(string \<rightharpoonup> Usage) option"
  status' :: "'s option"
  info' :: "string option"

definition orElse :: "'a option \<Rightarrow> 'a \<Rightarrow> 'a" where
  "orElse u old = (case u of None \<Rightarrow> old | Some v \<Rightarrow> v)"

text \<open>\<^verbatim>\<open>Object.assign(k, u)\<close> on the shared fields: each property of \<open>u\<close> overwrites \<open>k\<close>'s.\<close>

definition assignKey :: "('s, 'z) Key_scheme \<Rightarrow> ('s, 'y) KeyUpdate_scheme \<Rightarrow> ('s, 'z) Key_scheme" where
  "assignKey k u =
     k\<lparr> key := (case key' u of None \<Rightarrow> key k | Some v \<Rightarrow> Some v),
        hash := orElse (hash' u) (hash k),
        modelFamilies := orElse (modelFamilies' u) (modelFamilies k),
        isDisabled := orElse (isDisabled' u) (isDisabled k),
        isRevoked := orElse (isRevoked' u) (isRevoked k),
        isOverQuota := orElse (isOverQuota' u) (isOverQuota k),
        promptCount := orElse (promptCount' u) (promptCount k),
        lastUsed := orElse (lastUsed' u) (lastUsed k),
        rateLimitedAt := orElse (rateLimitedAt' u) (rateLimitedAt k),
        rateLimitedUntil := orElse (rateLimitedUntil' u) (rateLimitedUntil k),
        lastChecked := orElse (lastChecked' u) (lastChecked k),
        tokenUsage := orElse (tokenUsage' u) (tokenUsage k),
        status := orElse (status' u) (status k),
        info := orElse (info' u) (info k) \<rparr>"

text \<open>
  \<^verbatim>\<open>this.keys.find((k) => k.hash === h)\<close>: the position of the first record with that hash,
  \<open>None\<close> where \<^verbatim>\<open>find\<close> returns \<^verbatim>\<open>undefined\<close>.
\<close>

fun findIndex :: "('a \<Rightarrow> bool) \<Rightarrow> 'a list \<Rightarrow> nat option" where
  "findIndex P [] = None"
| "findIndex P (x # xs) =
     (if P x then Some 0 else (case findIndex P xs of None \<Rightarrow> None | Some i \<Rightarrow> Some (Suc i)))"

definition findByHash :: "string \<Rightarrow> ('s, 'z) Key_scheme list \<Rightarrow> nat option" where
  "findByHash h keys = findIndex (\<lambda>k. hash k = h) keys"

text \<open>
  \<^verbatim>\<open>Array.prototype.sort(cmp)\<close> is a stable sort by a comparator that returns a number
  (an integer for Groq, a rational for OpenRouter): \<open>a\<close> stays before \<open>b\<close> unless
  \<open>cmp a b > 0\<close>. Insertion from the right keeps equal elements in their order.
\<close>

fun insertBy :: "('a \<Rightarrow> 'a \<Rightarrow> 'n::{zero,linorder}) \<Rightarrow> 'a \<Rightarrow> 'a list \<Rightarrow> 'a list" where
  "insertBy cmp x [] = [x]"
| "insertBy cmp x (y # ys) = (if cmp x y \<le> 0 then x # y # ys else y # insertBy cmp x ys)"

fun sortBy :: "('a \<Rightarrow> 'a \<Rightarrow> 'n::{zero,linorder}) \<Rightarrow> 'a list \<Rightarrow> 'a list" where
  "sortBy cmp [] = []"
| "sortBy cmp (x # xs) = insertBy cmp x (sortBy cmp xs)"

text \<open>A natural number printed in decimal, as a template literal prints it.\<close>

definition digit :: "nat \<Rightarrow> char" where
  "digit d = ''0123456789'' ! d"

fun decimal :: "nat \<Rightarrow> string" where
  "decimal n = (if n < 10 then [digit n] else decimal (n div 10) @ [digit (n mod 10)])"

text \<open>
  The operations whose text is the same in both providers: \<^verbatim>\<open>list\<close>, \<^verbatim>\<open>disable\<close>,
  \<^verbatim>\<open>available\<close> and \<^verbatim>\<open>incrementUsage\<close>.
\<close>

definition list_keys :: "('s, 'z) Key_scheme list \<Rightarrow> ('s, 'z) Key_scheme list" where
  "list_keys keys = map (\<lambda>k. k\<lparr>key := None\<rparr>) keys"

definition disable :: "('s, 'z) Key_scheme \<Rightarrow> ('s, 'z) Key_scheme list \<Rightarrow> ('s, 'z) Key_scheme list" where
  "disable k keys =
     (case findByHash (hash k) keys of
        None \<Rightarrow> keys
      | Some i \<Rightarrow> if isDisabled (keys ! i) then keys else keys[i := (keys ! i)\<lparr>isDisabled := True\<rparr>])"

definition available :: "('s, 'z) Key_scheme list \<Rightarrow> nat" where
  "available keys = length (filter (\<lambda>k. \<not> isDisabled k) keys)"

definition incrementUsage ::
  "string \<Rightarrow> string \<Rightarrow> Usage \<Rightarrow> ('s, 'z) Key_scheme list \<Rightarrow> ('s, 'z) Key_scheme list" where
  "incrementUsage keyHash modelFamily usage keys =
     (case findByHash keyHash keys of
        None \<Rightarrow> keys
      | Some i \<Rightarrow>
          let k = keys ! i;
              currentFamilyUsage =
                (case tokenUsage k modelFamily of
                   None \<Rightarrow> \<lparr>inputTokens = 0, outputTokens = 0\<rparr>
                 | Some u \<Rightarrow> u);
              newUsage = \<lparr>inputTokens = inputTokens currentFamilyUsage + inputTokens usage,
                          outputTokens = outputTokens currentFamilyUsage + outputTokens usage\<rparr>
          in keys[i := k\<lparr>promptCount := promptCount k + 1,
                         tokenUsage := (tokenUsage k)(modelFamily \<mapsto> newUsage)\<rparr>])"

section \<open>The Groq provider\<close>

datatype GroqKeyStatus = ACTIVE | RATE_LIMITED | INVALID | DEAD | UNKNOWN

record RateLimitInfo =
  rpm :: int
  tpm :: int
  rpd :: "int option"
  tpd :: "int option"

record GroqKey = "GroqKeyStatus Key" +
  rateLimitInfo :: "RateLimitInfo option"

text \<open>
  \<^verbatim>\<open>Partial<GroqKey>\<close>. \<^verbatim>\<open>rateLimitInfo\<close> is optional in \<^verbatim>\<open>GroqKey\<close> itself, so the update
  may carry the property with the value \<^verbatim>\<open>undefined\<close>: \<open>Some None\<close>.
\<close>

record GroqKeyUpdate = "GroqKeyStatus KeyUpdate" +
  rateLimitInfo' :: "RateLimitInfo option option"

definition groq_noUpdate :: GroqKeyUpdate where
  "groq_noUpdate =
     \<lparr> key' = None, hash' = None, modelFamilies' = None, isDisabled' = None, isRevoked' = None,
       isOverQuota' = None, promptCount' = None, lastUsed' = None, rateLimitedAt' = None,
       rateLimitedUntil' = None, lastChecked' = None, tokenUsage' = None, status' = None,
       info' = None, rateLimitInfo' = None \<rparr>"

text \<open>
  The record the constructor builds for one configured secret; \<open>h\<close> is the fingerprint
  \<^verbatim>\<open>groq-<first 8 hex digits of sha256(key)>\<close>, computed outside.
\<close>

definition groq_newKey :: "string \<Rightarrow> string \<Rightarrow> GroqKey" where
  "groq_newKey k h =
     \<lparr> key = Some k, hash = h,
       modelFamilies = [''groq-llama-8b'', ''groq-llama-70b'', ''groq-llama-4-17b'',
                        ''groq-gpt-oss-120b'', ''groq-gpt-oss-20b'', ''groq-kimi'',
                        ''groq-qwen-32b''],
       isDisabled = False, isRevoked = False, isOverQuota = False, promptCount = 0,
       lastUsed = 0, rateLimitedAt = 0, rateLimitedUntil = 0, lastChecked = 0,
       tokenUsage = Map.empty, status = UNKNOWN, info = ''Key not yet checked'',
       rateLimitInfo = None \<rparr>"

fun groq_STATUS_PRIORITY :: "GroqKeyStatus \<Rightarrow> int" where
  "groq_STATUS_PRIORITY ACTIVE = 5"
| "groq_STATUS_PRIORITY RATE_LIMITED = 2"
| "groq_STATUS_PRIORITY UNKNOWN = 1"
| "groq_STATUS_PRIORITY INVALID = 0"
| "groq_STATUS_PRIORITY DEAD = 0"

definition groq_RATE_LIMIT_LOCKOUT :: int where
  "groq_RATE_LIMIT_LOCKOUT = 60000"

text \<open>The callback of \<^verbatim>\<open>this.keys.filter\<close> in \<^verbatim>\<open>get\<close>, with its five checks in order.\<close>

definition groq_isAvailable :: "string \<Rightarrow> int \<Rightarrow> GroqKey \<Rightarrow> bool" where
  "groq_isAvailable requiredFamily now k =
     (if isDisabled k then False
      else if groq_STATUS_PRIORITY (status k) = 0 then False
      else if isOverQuota k then False
      else if now < rateLimitedUntil k then False
      else requiredFamily \<in> set (modelFamilies k))"

text \<open>The comparator of \<^verbatim>\<open>availableKeys.sort\<close>: status priority descending, then LRU.\<close>

definition groq_compare :: "GroqKey \<Rightarrow> GroqKey \<Rightarrow> int" where
  "groq_compare a b =
     (let aPriority = groq_STATUS_PRIORITY (status a);
          bPriority = groq_STATUS_PRIORITY (status b)
      in if aPriority \<noteq> bPriority then bPriority - aPriority
         else lastUsed a - lastUsed b)"

definition groq_availableKeys :: "string \<Rightarrow> int \<Rightarrow> GroqKey list \<Rightarrow> nat list" where
  "groq_availableKeys requiredFamily now keys =
     filter (\<lambda>i. groq_isAvailable requiredFamily now (keys ! i)) [0..<length keys]"

text \<open>
  \<^verbatim>\<open>get(rawModel)\<close>. \<^verbatim>\<open>getGroqModelFamily\<close> lives outside the files at hand and is the
  parameter \<open>getFamily\<close>. The result is the returned copy and the pool, in which the
  selected record carries the new \<^verbatim>\<open>lastUsed\<close>.
\<close>

definition groq_get ::
  "(string \<Rightarrow> string) \<Rightarrow> string \<Rightarrow> int \<Rightarrow> GroqKey list \<Rightarrow> error + (GroqKey \<times> GroqKey list)" where
  "groq_get getFamily rawModel now keys =
     (let requiredFamily = getFamily rawModel;
          availableKeys = groq_availableKeys requiredFamily now keys
      in if length availableKeys = 0
         then Inl (PaymentRequiredError ''No active Groq keys available.'')
         else
           let keysByPriority = sortBy (\<lambda>a b. groq_compare (keys ! a) (keys ! b)) availableKeys;
               i = hd keysByPriority;
               selectedKey = (keys ! i)\<lparr>lastUsed := now\<rparr>
           in Inr (selectedKey, keys[i := selectedKey]))"

definition groq_assign :: "GroqKey \<Rightarrow> GroqKeyUpdate \<Rightarrow> GroqKey" where
  "groq_assign k u = (assignKey k u)\<lparr>rateLimitInfo := orElse (rateLimitInfo' u) (rateLimitInfo k)\<rparr>"

text \<open>
  The body of \<^verbatim>\<open>update\<close> once \<^verbatim>\<open>keyFromPool\<close> is an object: the derived flags are written
  into the update, then \<^verbatim>\<open>Object.assign(keyFromPool, { lastChecked: Date.now(), ...update })\<close>.
\<close>

definition groq_deriveFlags :: "GroqKey \<Rightarrow> GroqKeyUpdate \<Rightarrow> GroqKeyUpdate" where
  "groq_deriveFlags keyFromPool upd =
     (case status' upd of
        None \<Rightarrow> upd
      | Some s \<Rightarrow>
          let u = upd\<lparr>isOverQuota' := Some (s = RATE_LIMITED \<or> s = INVALID)\<rparr>
          in if s = DEAD \<or> s = INVALID
             then u\<lparr>isDisabled' := Some True, isRevoked' := Some (s = DEAD)\<rparr>
             else if status keyFromPool = DEAD \<or> status keyFromPool = INVALID
             then u\<lparr>isDisabled' := Some False, isRevoked' := Some False\<rparr>
             else u)"

text \<open>
  \<^verbatim>\<open>update(hash, update)\<close>. With an unknown hash \<^verbatim>\<open>keyFromPool\<close> is \<^verbatim>\<open>undefined\<close> behind the
  non-null assertion; the call then throws a TypeError on every path, at
  \<^verbatim>\<open>keyFromPool.status\<close> or at \<^verbatim>\<open>Object.assign(undefined, ...)\<close>.
\<close>

definition groq_update :: "string \<Rightarrow> GroqKeyUpdate \<Rightarrow> int \<Rightarrow> GroqKey list \<Rightarrow> error + GroqKey list" where
  "groq_update h upd now keys =
     (case findByHash h keys of
        None \<Rightarrow> Inl TypeError
      | Some i \<Rightarrow>
          let keyFromPool = keys ! i
          in Inr (keys[i := groq_assign (keyFromPool\<lparr>lastChecked := now\<rparr>)
                                        (groq_deriveFlags keyFromPool upd)]))"

text \<open>
  \<^verbatim>\<open>markRateLimited(keyHash)\<close>: the two timestamps are written through the reference, where
  an unknown hash throws, then \<^verbatim>\<open>update\<close> runs with the status \<^verbatim>\<open>RATE_LIMITED\<close>.
\<close>

definition groq_markRateLimited :: "string \<Rightarrow> int \<Rightarrow> GroqKey list \<Rightarrow> error + GroqKey list" where
  "groq_markRateLimited keyHash now keys =
     (case findByHash keyHash keys of
        None \<Rightarrow> Inl TypeError
      | Some i \<Rightarrow>
          groq_update keyHash
            (groq_noUpdate\<lparr>status' := Some RATE_LIMITED, info' := Some ''Rate limited by proxy''\<rparr>)
            now
            (keys[i := (keys ! i)\<lparr>rateLimitedAt := now,
                                  rateLimitedUntil := now + groq_RATE_LIMIT_LOCKOUT\<rparr>]))"

definition groq_recheckUpdate :: GroqKeyUpdate where
  "groq_recheckUpdate =
     groq_noUpdate\<lparr> status' := Some UNKNOWN, info' := Some ''Recheck scheduled'',
                    isOverQuota' := Some False, isDisabled' := Some False,
                    isRevoked' := Some False, lastChecked' := Some 0,
                    rateLimitInfo' := Some None \<rparr>"

text \<open>
  \<^verbatim>\<open>recheck()\<close>: \<^verbatim>\<open>forEach\<close> visits the positions in order and calls \<^verbatim>\<open>update\<close> with the hash
  of the record it finds there. The call to the checker's scheduler is outside the pool.
\<close>

fun groq_recheckFrom :: "nat list \<Rightarrow> int \<Rightarrow> GroqKey list \<Rightarrow> error + GroqKey list" where
  "groq_recheckFrom [] now keys = Inr keys"
| "groq_recheckFrom (i # is) now keys =
     (case groq_update (hash (keys ! i)) groq_recheckUpdate now keys of
        Inl e \<Rightarrow> Inl e
      | Inr keys' \<Rightarrow> groq_recheckFrom is now keys')"

definition groq_recheck :: "int \<Rightarrow> GroqKey list \<Rightarrow> error + GroqKey list" where
  "groq_recheck now keys = groq_recheckFrom [0..<length keys] now keys"

text \<open>
  The checker's constants and its hook for a probe that failed in transport;
  \<open>responseStatus\<close> is \<^verbatim>\<open>error.response?.status\<close>, and \<^verbatim>\<open>updateKey\<close> is the provider's
  \<^verbatim>\<open>update\<close>.
\<close>

definition groq_KEY_CHECK_PERIOD :: int where
  "groq_KEY_CHECK_PERIOD = 1000 * 60 * 60 * 2"

definition oneHour :: int where
  "oneHour = 60 * 60 * 1000"

definition groq_handleAxiosError ::
  "GroqKey \<Rightarrow> nat option \<Rightarrow> int \<Rightarrow> GroqKey list \<Rightarrow> error + GroqKey list" where
  "groq_handleAxiosError k responseStatus now keys =
     (if responseStatus = Some 429
      then groq_update (hash k)
             (groq_noUpdate\<lparr>status' := Some RATE_LIMITED,
                            info' := Some ''Rate limit exceeded during check.''\<rparr>) now keys
      else if responseStatus = Some 401
      then groq_update (hash k)
             (groq_noUpdate\<lparr>status' := Some INVALID, info' := Some ''Invalid API key.'',
                            isDisabled' := Some True, isRevoked' := Some True\<rparr>) now keys
      else
        let next = now - (groq_KEY_CHECK_PERIOD - oneHour)
        in groq_update (hash k) (groq_noUpdate\<lparr>lastChecked' := Some next\<rparr>) now keys)"

text \<open>
  The probe itself. \<^verbatim>\<open>makeRequest\<close> wraps \<^verbatim>\<open>axios.get\<close> in \<^verbatim>\<open>try\<close>/\<^verbatim>\<open>catch\<close> and returns a status
  and a body either way. The outcome of the HTTP call is a response (status, body) or a
  rejection carrying \<^verbatim>\<open>error.response\<close>, if there is one, and \<^verbatim>\<open>error.message\<close>; a body that
  is falsy is \<open>None\<close>. Of a body the probe reads what its two type guards read:
  \<open>modelCount\<close> is \<open>Some n\<close> when \<^verbatim>\<open>isModelsResponse\<close> holds and \<^verbatim>\<open>data.data\<close> has \<open>n\<close> entries,
  \<open>errorOf\<close> is \<open>Some (message, type)\<close> when the body has an \<^verbatim>\<open>error\<close> object.
\<close>

datatype 'b AxiosOutcome = Resolved nat 'b | Rejected "(nat \<times> 'b option) option" string

record GroqBody =
  modelCount :: "nat option"
  errorOf :: "(string \<times> string) option"

definition groq_makeRequest :: "GroqBody AxiosOutcome \<Rightarrow> nat \<times> GroqBody" where
  "groq_makeRequest outcome =
     (case outcome of
        Resolved responseStatus responseData \<Rightarrow> (responseStatus, responseData)
      | Rejected response message \<Rightarrow>
          ((case response of
              None \<Rightarrow> 500
            | Some (responseStatus, responseData) \<Rightarrow>
                if responseStatus = 0 then 500 else responseStatus),
           (case response of
              Some (responseStatus, Some responseData) \<Rightarrow> responseData
            | _ \<Rightarrow> \<lparr>modelCount = None, errorOf = Some (message, ''network_error'')\<rparr>)))"

definition isModelsResponse :: "GroqBody \<Rightarrow> bool" where
  "isModelsResponse data = (modelCount data \<noteq> None)"

definition isErrorResponse :: "GroqBody \<Rightarrow> bool" where
  "isErrorResponse data = (case errorOf data of None \<Rightarrow> False | Some (message, t) \<Rightarrow> message \<noteq> [])"

text \<open>
  \<^verbatim>\<open>testKey\<close>, on what \<^verbatim>\<open>makeRequest\<close> returned: the status and the info string. Under
  \<^verbatim>\<open>isErrorResponse\<close> the body has its \<^verbatim>\<open>error\<close> object, so the \<open>None\<close> case there is never taken.
\<close>

definition groq_testKey :: "nat \<times> GroqBody \<Rightarrow> GroqKeyStatus \<times> string" where
  "groq_testKey result =
     (if fst result = 200 \<and> isModelsResponse (snd result)
      then (ACTIVE,
            ''Valid key with access to '' @
              decimal (case modelCount (snd result) of None \<Rightarrow> 0 | Some n \<Rightarrow> n) @ '' models'')
      else if isErrorResponse (snd result)
      then
        (case errorOf (snd result) of
           None \<Rightarrow> (UNKNOWN, [])
         | Some (errorMsg, errorType) \<Rightarrow>
             if fst result = 401 then (INVALID, ''Invalid key: '' @ errorMsg)
             else if fst result = 429 then (RATE_LIMITED, ''Rate limited: '' @ errorMsg)
             else (UNKNOWN, ''Error ('' @ errorType @ ''): '' @ errorMsg))
      else (UNKNOWN, ''Unexpected response status: '' @ decimal (fst result)))"

text \<open>
  \<^verbatim>\<open>testKeyOrFail\<close>: the result of \<^verbatim>\<open>testKey\<close> goes to \<^verbatim>\<open>update\<close>, with the property
  \<^verbatim>\<open>rateLimitInfo\<close> present and \<^verbatim>\<open>undefined\<close>.
\<close>

definition groq_testKeyOrFail ::
  "GroqKey \<Rightarrow> GroqBody AxiosOutcome \<Rightarrow> int \<Rightarrow> GroqKey list \<Rightarrow> error + GroqKey list" where
  "groq_testKeyOrFail k outcome now keys =
     (let r = groq_testKey (groq_makeRequest outcome)
      in groq_update (hash k)
           (groq_noUpdate\<lparr>status' := Some (fst r), info' := Some (snd r),
                          rateLimitInfo' := Some None\<rparr>)
           now keys)"

section \<open>The OpenRouter provider\<close>

datatype OpenRouterKeyStatus =
    PAID_Balance | PAID_No_Credits | PAID_Limit_Reached
  | FREE_Active | FREE_Exhausted | OR_DEAD | UNKNOWN_Rate_Limited

text \<open>The string each status is at run time; \<^verbatim>\<open>update\<close> inspects it.\<close>

fun statusString :: "OpenRouterKeyStatus \<Rightarrow> string" where
  "statusString PAID_Balance = ''PAID (Balance)''"
| "statusString PAID_No_Credits = ''PAID (No Credits)''"
| "statusString PAID_Limit_Reached = ''PAID (Limit Reached)''"
| "statusString FREE_Active = ''FREE (Active)''"
| "statusString FREE_Exhausted = ''FREE (Exhausted)''"
| "statusString OR_DEAD = ''DEAD''"
| "statusString UNKNOWN_Rate_Limited = ''UNKNOWN (Rate Limited)''"

text \<open>\<^verbatim>\<open>String.prototype.startsWith\<close> and \<^verbatim>\<open>String.prototype.includes\<close>.\<close>

definition startsWith :: "string \<Rightarrow> string \<Rightarrow> bool" where
  "startsWith s p = prefix p s"

definition includes_str :: "string \<Rightarrow> string \<Rightarrow> bool" where
  "includes_str s p = sublist p s"

record OpenRouterKey = "OpenRouterKeyStatus Key" +
  isPaid :: bool
  remainingBalance :: "rat option"
  isFreeTier :: bool

text \<open>
  \<^verbatim>\<open>Partial<OpenRouterKey>\<close>; \<^verbatim>\<open>remainingBalance: null\<close> is \<open>Some None\<close>.
\<close>

record OpenRouterKeyUpdate = "OpenRouterKeyStatus KeyUpdate" +
  isPaid' :: "bool option"
  remainingBalance' :: "rat option option"
  isFreeTier' :: "bool option"

definition openrouter_noUpdate :: OpenRouterKeyUpdate where
  "openrouter_noUpdate =
     \<lparr> key' = None, hash' = None, modelFamilies' = None, isDisabled' = None, isRevoked' = None,
       isOverQuota' = None, promptCount' = None, lastUsed' = None, rateLimitedAt' = None,
       rateLimitedUntil' = None, lastChecked' = None, tokenUsage' = None, status' = None,
       info' = None, isPaid' = None, remainingBalance' = None, isFreeTier' = None \<rparr>"

text \<open>
  The constructor's record; \<open>h\<close> is \<^verbatim>\<open>or-<first 8 hex digits of sha256(key)>\<close>.
\<close>

definition openrouter_newKey :: "string \<Rightarrow> string \<Rightarrow> OpenRouterKey" where
  "openrouter_newKey k h =
     \<lparr> key = Some k, hash = h,
       modelFamilies = [''openrouter-paid'', ''openrouter-free''],
       isDisabled = False, isRevoked = False, isOverQuota = False, promptCount = 0,
       lastUsed = 0, rateLimitedAt = 0, rateLimitedUntil = 0, lastChecked = 0,
       tokenUsage = Map.empty, status = UNKNOWN_Rate_Limited, info = ''Key not yet checked'',
       isPaid = False, remainingBalance = None, isFreeTier = False \<rparr>"

fun openrouter_STATUS_PRIORITY :: "OpenRouterKeyStatus \<Rightarrow> int" where
  "openrouter_STATUS_PRIORITY PAID_Balance = 5"
| "openrouter_STATUS_PRIORITY FREE_Active = 3"
| "openrouter_STATUS_PRIORITY PAID_No_Credits = 1"
| "openrouter_STATUS_PRIORITY PAID_Limit_Reached = 1"
| "openrouter_STATUS_PRIORITY FREE_Exhausted = 1"
| "openrouter_STATUS_PRIORITY OR_DEAD = 0"
| "openrouter_STATUS_PRIORITY UNKNOWN_Rate_Limited = 0"

definition openrouter_RATE_LIMIT_LOCKOUT :: int where
  "openrouter_RATE_LIMIT_LOCKOUT = 15000"

text \<open>The callback of \<^verbatim>\<open>this.keys.filter\<close> in \<^verbatim>\<open>get\<close>, its checks in the source's order.\<close>

definition openrouter_isAvailable :: "string \<Rightarrow> int \<Rightarrow> OpenRouterKey \<Rightarrow> bool" where
  "openrouter_isAvailable requiredFamily now k =
     (if isDisabled k then False
      else if openrouter_STATUS_PRIORITY (status k) = 0 then False
      else if requiredFamily = ''openrouter-paid'' \<and> \<not> isPaid k then False
      else if requiredFamily = ''openrouter-paid'' \<and>
              (case remainingBalance k of None \<Rightarrow> False | Some b \<Rightarrow> b \<le> 0) then False
      else if requiredFamily = ''openrouter-free'' \<and>
              isFreeTier k \<and> status k = FREE_Exhausted then False
      else if now < rateLimitedUntil k then False
      else requiredFamily \<in> set (modelFamilies k))"

text \<open>
  The comparator: status priority descending, then \<^verbatim>\<open>remainingBalance || 0\<close> descending,
  then LRU.
\<close>

definition openrouter_compare :: "OpenRouterKey \<Rightarrow> OpenRouterKey \<Rightarrow> rat" where
  "openrouter_compare a b =
     (let aPriority = openrouter_STATUS_PRIORITY (status a);
          bPriority = openrouter_STATUS_PRIORITY (status b)
      in if aPriority \<noteq> bPriority then of_int (bPriority - aPriority)
         else
           let aBalance = orElse (remainingBalance a) 0;
               bBalance = orElse (remainingBalance b) 0
           in if aBalance \<noteq> bBalance then bBalance - aBalance
              else of_int (lastUsed a - lastUsed b))"

definition openrouter_availableKeys :: "string \<Rightarrow> int \<Rightarrow> OpenRouterKey list \<Rightarrow> nat list" where
  "openrouter_availableKeys requiredFamily now keys =
     filter (\<lambda>i. openrouter_isAvailable requiredFamily now (keys ! i)) [0..<length keys]"

text \<open>
  \<^verbatim>\<open>get(rawModel)\<close>, with \<^verbatim>\<open>getOpenRouterModuleFamily\<close> as the parameter \<open>getFamily\<close>.
\<close>

definition openrouter_get ::
  "(string \<Rightarrow> string) \<Rightarrow> string \<Rightarrow> int \<Rightarrow> OpenRouterKey list
     \<Rightarrow> error + (OpenRouterKey \<times> OpenRouterKey list)" where
  "openrouter_get getFamily rawModel now keys =
     (let requiredFamily = getFamily rawModel;
          availableKeys = openrouter_availableKeys requiredFamily now keys
      in if length availableKeys = 0
         then Inl (PaymentRequiredError
                (if requiredFamily = ''openrouter-paid''
                 then ''No active OpenRouter Paid keys available (Balance depleted or key limit reached).''
                 else ''No active OpenRouter Free keys available (Free tier exhausted).''))
         else
           let keysByPriority =
                 sortBy (\<lambda>a b. openrouter_compare (keys ! a) (keys ! b)) availableKeys;
               i = hd keysByPriority;
               selectedKey = (keys ! i)\<lparr>lastUsed := now\<rparr>
           in Inr (selectedKey, keys[i := selectedKey]))"

definition openrouter_assign :: "OpenRouterKey \<Rightarrow> OpenRouterKeyUpdate \<Rightarrow> OpenRouterKey" where
  "openrouter_assign k u =
     (assignKey k u)\<lparr> isPaid := orElse (isPaid' u) (isPaid k),
                      remainingBalance := orElse (remainingBalance' u) (remainingBalance k),
                      isFreeTier := orElse (isFreeTier' u) (isFreeTier k) \<rparr>"

text \<open>The flags \<^verbatim>\<open>update\<close> writes into the update object when it carries a status.\<close>

definition openrouter_deriveFlags :: "OpenRouterKey \<Rightarrow> OpenRouterKeyUpdate \<Rightarrow> OpenRouterKeyUpdate" where
  "openrouter_deriveFlags keyFromPool upd =
     (case status' upd of
        None \<Rightarrow> upd
      | Some s \<Rightarrow>
          let isPaid = startsWith (statusString s) ''PAID'';
              isOverQuota = (includes_str (statusString s) ''No Credits'' \<or>
                             includes_str (statusString s) ''Exhausted'' \<or>
                             includes_str (statusString s) ''Limit Reached'');
              u = upd\<lparr>isOverQuota' := Some isOverQuota, isPaid' := Some isPaid,
                      isFreeTier' := Some (startsWith (statusString s) ''FREE'')\<rparr>
          in if s = OR_DEAD \<or> s = UNKNOWN_Rate_Limited
             then u\<lparr>isDisabled' := Some True, isRevoked' := Some (s = OR_DEAD)\<rparr>
             else if status keyFromPool = OR_DEAD \<or> status keyFromPool = UNKNOWN_Rate_Limited
             then u\<lparr>isDisabled' := Some False, isRevoked' := Some False\<rparr>
             else u)"

definition openrouter_update ::
  "string \<Rightarrow> OpenRouterKeyUpdate \<Rightarrow> int \<Rightarrow> OpenRouterKey list \<Rightarrow> error + OpenRouterKey list" where
  "openrouter_update h upd now keys =
     (case findByHash h keys of
        None \<Rightarrow> Inl TypeError
      | Some i \<Rightarrow>
          let keyFromPool = keys ! i
          in Inr (keys[i := openrouter_assign (keyFromPool\<lparr>lastChecked := now\<rparr>)
                                              (openrouter_deriveFlags keyFromPool upd)]))"

text \<open>
  \<^verbatim>\<open>markRateLimited(keyHash)\<close> of this provider writes the two timestamps and nothing else.
\<close>

definition openrouter_markRateLimited ::
  "string \<Rightarrow> int \<Rightarrow> OpenRouterKey list \<Rightarrow> error + OpenRouterKey list" where
  "openrouter_markRateLimited keyHash now keys =
     (case findByHash keyHash keys of
        None \<Rightarrow> Inl TypeError
      | Some i \<Rightarrow>
          Inr (keys[i := (keys ! i)\<lparr>rateLimitedAt := now,
                                     rateLimitedUntil := now + openrouter_RATE_LIMIT_LOCKOUT\<rparr>]))"

definition openrouter_recheckUpdate :: OpenRouterKeyUpdate where
  "openrouter_recheckUpdate =
     openrouter_noUpdate\<lparr> status' := Some UNKNOWN_Rate_Limited, info' := Some ''Recheck scheduled'',
                          isPaid' := Some False, isOverQuota' := Some False,
                          isDisabled' := Some False, isRevoked' := Some False,
                          lastChecked' := Some 0, remainingBalance' := Some None,
                          isFreeTier' := Some False \<rparr>"

fun openrouter_recheckFrom ::
  "nat list \<Rightarrow> int \<Rightarrow> OpenRouterKey list \<Rightarrow> error + OpenRouterKey list" where
  "openrouter_recheckFrom [] now keys = Inr keys"
| "openrouter_recheckFrom (i # is) now keys =
     (case openrouter_update (hash (keys ! i)) openrouter_recheckUpdate now keys of
        Inl e \<Rightarrow> Inl e
      | Inr keys' \<Rightarrow> openrouter_recheckFrom is now keys')"

definition openrouter_recheck :: "int \<Rightarrow> OpenRouterKey list \<Rightarrow> error + OpenRouterKey list" where
  "openrouter_recheck now keys = openrouter_recheckFrom [0..<length keys] now keys"



section \<open>The mutation pipeline\<close>

text \<open>
  The request as far as the mutators touch it: the URL, the headers, the model named in
  the body and the outbound payload.
\<close>

record Request =
  url :: string
  headers :: "(string \<times> string) list"
  model :: string
  body :: string

text \<open>
  Modelled from the spec: \<^verbatim>\<open>ProxyReqManager\<close> (\<^verbatim>\<open>proxy-req-manager.ts\<close> is not among the
  files at hand). The spec's words: it "holds the original request snapshot, the list of
  applied changes (for reversal), and the current mutable view handed to each mutator";
  it "records every change it makes on behalf of a mutator so that, given the original
  pristine request captured when the manager was created, it can restore that original
  state before the chain is re-run". A change is recorded with the value it replaced, and
  \<open>revert\<close> undoes the recorded changes, the last one first; \<open>'k\<close> is the provider's
  credential record.
\<close>

datatype 'k Change =
    PathChange string
  | HeaderChange string "string option"
  | BodyChange string
  | KeyChange "'k option"

record 'k ProxyReqManager =
  original :: Request
  request :: Request
  changes :: "'k Change list"
  assignedKey :: "'k option"

definition newManager :: "Request \<Rightarrow> 'k ProxyReqManager" where
  "newManager req = \<lparr> original = req, request = req, changes = [], assignedKey = None \<rparr>"

definition setPath :: "string \<Rightarrow> 'k ProxyReqManager \<Rightarrow> 'k ProxyReqManager" where
  "setPath newPath m =
     m\<lparr> request := (request m)\<lparr>url := newPath\<rparr>,
        changes := changes m @ [PathChange (url (request m))] \<rparr>"

fun setAssoc :: "string \<Rightarrow> string \<Rightarrow> (string \<times> string) list \<Rightarrow> (string \<times> string) list" where
  "setAssoc n v [] = [(n, v)]"
| "setAssoc n v ((n', v') # hs) = (if n' = n then (n, v) # hs else (n', v') # setAssoc n v hs)"

definition removeAssoc :: "string \<Rightarrow> (string \<times> string) list \<Rightarrow> (string \<times> string) list" where
  "removeAssoc n hs = filter (\<lambda>h. fst h \<noteq> n) hs"

definition setHeader :: "string \<Rightarrow> string \<Rightarrow> 'k ProxyReqManager \<Rightarrow> 'k ProxyReqManager" where
  "setHeader n v m =
     m\<lparr> request := (request m)\<lparr>headers := setAssoc n v (headers (request m))\<rparr>,
        changes := changes m @ [HeaderChange n (map_of (headers (request m)) n)] \<rparr>"

definition setBody :: "string \<Rightarrow> 'k ProxyReqManager \<Rightarrow> 'k ProxyReqManager" where
  "setBody b m =
     m\<lparr> request := (request m)\<lparr>body := b\<rparr>,
        changes := changes m @ [BodyChange (body (request m))] \<rparr>"

definition setKey :: "'k \<Rightarrow> 'k ProxyReqManager \<Rightarrow> 'k ProxyReqManager" where
  "setKey k m =
     m\<lparr> assignedKey := Some k, changes := changes m @ [KeyChange (assignedKey m)] \<rparr>"

text \<open>Undoing one recorded change on the current view and the assigned credential.\<close>

fun undoChange :: "'k Change \<Rightarrow> Request \<times> 'k option \<Rightarrow> Request \<times> 'k option" where
  "undoChange (PathChange old) (r, k) = (r\<lparr>url := old\<rparr>, k)"
| "undoChange (HeaderChange n None) (r, k) = (r\<lparr>headers := removeAssoc n (headers r)\<rparr>, k)"
| "undoChange (HeaderChange n (Some old)) (r, k) = (r\<lparr>headers := setAssoc n old (headers r)\<rparr>, k)"
| "undoChange (BodyChange old) (r, k) = (r\<lparr>body := old\<rparr>, k)"
| "undoChange (KeyChange old) (r, k) = (r, old)"

definition revert :: "'k ProxyReqManager \<Rightarrow> 'k ProxyReqManager" where
  "revert m =
     (let undone = fold undoChange (rev (changes m)) (request m, assignedKey m)
      in m\<lparr> request := fst undone, assignedKey := snd undone, changes := [] \<rparr>)"

text \<open>
  The managers whose change list leads back to the snapshot: the fresh manager, and what
  the recording operations make of such a manager.
\<close>

definition recorded :: "'k ProxyReqManager \<Rightarrow> bool" where
  "recorded m \<longleftrightarrow>
     fold undoChange (rev (changes m)) (request m, assignedKey m) = (original m, None)"

text \<open>
  \<^verbatim>\<open>ProxyReqMutator\<close> of \<^verbatim>\<open>src/proxy/middleware/request/index.ts\<close>: a step that receives the
  manager. The key pool it may call and the clock it may read are ambient in the source
  and explicit here; a step that throws is \<open>Inl\<close>.
\<close>

type_synonym 'k ProxyReqMutator =
  "int \<Rightarrow> 'k ProxyReqManager \<times> 'k list \<Rightarrow> error + ('k ProxyReqManager \<times> 'k list)"

definition managerOnly :: "('k ProxyReqManager \<Rightarrow> 'k ProxyReqManager) \<Rightarrow> 'k ProxyReqMutator" where
  "managerOnly f now st = Inr (f (fst st), snd st)"

text \<open>
  \<^verbatim>\<open>selectUpstreamPath\<close> of \<^verbatim>\<open>src/proxy/openrouter.ts\<close>: \<^verbatim>\<open>req.url.split("?")[0]\<close> is the URL
  up to its first question mark, \<^verbatim>\<open>substring(n)\<close> drops \<open>n\<close> characters.
\<close>

definition selectUpstreamPath :: "'k ProxyReqManager \<Rightarrow> 'k ProxyReqManager" where
  "selectUpstreamPath manager =
     (let req = request manager;
          pathname = takeWhile (\<lambda>c. c \<noteq> CHR ''?'') (url req);
          newPathname =
            (if startsWith pathname ''/v1/'' then drop 3 pathname
             else if startsWith pathname ''/v1'' then drop 2 pathname
             else pathname)
      in setPath (newPathname @ drop (length pathname) (url req)) manager)"

text \<open>
  Modelled from the spec: the mutator \<^verbatim>\<open>addKey\<close> (\<^verbatim>\<open>mutators/add-key.ts\<close> is not among the
  files at hand): "credential injection (reads a credential from the Credential Pool's
  \<^verbatim>\<open>get\<close>, sets the auth header)", the pool's \<^verbatim>\<open>get\<close> being called "synchronously within the
  mutation chain (not before)" and the credential being kept in "the manager's recorded
  state". \<open>poolGet\<close> is the provider's \<^verbatim>\<open>get\<close>.
\<close>

definition addKey ::
  "(string \<Rightarrow> int \<Rightarrow> ('s, 'z) Key_scheme list
      \<Rightarrow> error + (('s, 'z) Key_scheme \<times> ('s, 'z) Key_scheme list))
   \<Rightarrow> ('s, 'z) Key_scheme ProxyReqMutator" where
  "addKey poolGet now st =
     (case poolGet (model (request (fst st))) now (snd st) of
        Inl e \<Rightarrow> Inl e
      | Inr (k, keys') \<Rightarrow>
          Inr (setHeader ''authorization''
                 (''Bearer '' @ (case key k of None \<Rightarrow> ''undefined'' | Some secret \<Rightarrow> secret))
                 (setKey k (fst st)),
               keys'))"

text \<open>
  Modelled from the spec: the mutator \<^verbatim>\<open>finalizeBody\<close> (\<^verbatim>\<open>mutators/finalize-body.ts\<close> is not
  among the files at hand): "body finalization (serializes/normalizes the outbound
  payload, e.g. recomputing \<^verbatim>\<open>Content-Length\<close>)". The serializer is the parameter
  \<open>serialize\<close>.
\<close>

definition finalizeBody :: "(string \<Rightarrow> string) \<Rightarrow> 'k ProxyReqManager \<Rightarrow> 'k ProxyReqManager" where
  "finalizeBody serialize m =
     (let payload = serialize (body (request m))
      in setHeader ''content-length'' (decimal (length payload)) (setBody payload m))"

text \<open>
  The chains of the two routes, \<^verbatim>\<open>mutations: [addKey, finalizeBody]\<close> in
  \<^verbatim>\<open>src/proxy/groq.ts\<close> and \<^verbatim>\<open>mutations: [selectUpstreamPath, addKey, finalizeBody]\<close> in
  \<^verbatim>\<open>src/proxy/openrouter.ts\<close>.
\<close>

definition groq_mutations ::
  "(string \<Rightarrow> string) \<Rightarrow> (string \<Rightarrow> string) \<Rightarrow> GroqKey ProxyReqMutator list" where
  "groq_mutations getFamily serialize =
     [addKey (groq_get getFamily), managerOnly (finalizeBody serialize)]"

definition openrouter_mutations ::
  "(string \<Rightarrow> string) \<Rightarrow> (string \<Rightarrow> string) \<Rightarrow> OpenRouterKey ProxyReqMutator list" where
  "openrouter_mutations getFamily serialize =
     [managerOnly selectUpstreamPath, addKey (openrouter_get getFamily),
      managerOnly (finalizeBody serialize)]"

text \<open>
  Modelled from the spec: running a chain, "if a mutator throws, the chain aborts", and a
  dispatch attempt with its retry, "the Mutation Manager is reset and re-run on the next
  dispatch attempt". The chain runs on a fresh manager at time \<open>now1\<close>; the manager is
  reverted and the chain runs again at time \<open>now2\<close> on the pool the first run left. The
  result is the pair of outbound requests.
\<close>

fun runChain :: "'k ProxyReqMutator list \<Rightarrow> 'k ProxyReqMutator" where
  "runChain [] now st = Inr st"
| "runChain (f # fs) now st =
     (case f now st of Inl e \<Rightarrow> Inl e | Inr st' \<Rightarrow> runChain fs now st')"

definition runTwice ::
  "'k ProxyReqMutator list \<Rightarrow> int \<Rightarrow> int \<Rightarrow> Request \<Rightarrow> 'k list \<Rightarrow> error + (Request \<times> Request)" where
  "runTwice chain now1 now2 req keys =
     (case runChain chain now1 (newManager req, keys) of
        Inl e \<Rightarrow> Inl e
      | Inr (m1, keys1) \<Rightarrow>
          (case runChain chain now2 (revert m1, keys1) of
             Inl e \<Rightarrow> Inl e
           | Inr (m2, keys2) \<Rightarrow> Inr (request m1, request m2)))"

section \<open>The selected position, and sequences of calls\<close>

text \<open>
  The position \<^verbatim>\<open>get\<close> selects, \<^verbatim>\<open>keysByPriority[0]\<close>, when the candidate list is not empty.
\<close>

definition groq_selected :: "string \<Rightarrow> int \<Rightarrow> GroqKey list \<Rightarrow> nat" where
  "groq_selected requiredFamily now keys =
     hd (sortBy (\<lambda>a b. groq_compare (keys ! a) (keys ! b))
                (groq_availableKeys requiredFamily now keys))"

definition openrouter_selected :: "string \<Rightarrow> int \<Rightarrow> OpenRouterKey list \<Rightarrow> nat" where
  "openrouter_selected requiredFamily now keys =
     hd (sortBy (\<lambda>a b. openrouter_compare (keys ! a) (keys ! b))
                (openrouter_availableKeys requiredFamily now keys))"

text \<open>
  The type \<^verbatim>\<open>GroqKeyUpdate\<close> of the source, \<^verbatim>\<open>Partial<GroqKey>\<close> without \<^verbatim>\<open>key\<close>, \<^verbatim>\<open>hash\<close>,
  \<^verbatim>\<open>lastUsed\<close>, \<^verbatim>\<open>promptCount\<close>, \<^verbatim>\<open>rateLimitedAt\<close> and \<^verbatim>\<open>rateLimitedUntil\<close>: the updates the
  checker sends.
\<close>

definition groq_isKeyUpdate :: "GroqKeyUpdate \<Rightarrow> bool" where
  "groq_isKeyUpdate u \<longleftrightarrow>
     key' u = None \<and> hash' u = None \<and> lastUsed' u = None \<and> promptCount' u = None \<and>
     rateLimitedAt' u = None \<and> rateLimitedUntil' u = None"

text \<open>
  The traffic on a Groq pool: request handlers calling \<^verbatim>\<open>get\<close> and the checker calling
  \<^verbatim>\<open>update\<close>, one synchronous step after the other, each at its time. A call that throws
  leaves the pool as it was. The run returns what the \<^verbatim>\<open>get\<close> calls returned, in order, and
  the pool at the end.
\<close>

datatype GroqCall = Get string | Update string GroqKeyUpdate

fun groq_run ::
  "(string \<Rightarrow> string) \<Rightarrow> (GroqCall \<times> int) list \<Rightarrow> GroqKey list
   \<Rightarrow> (error + GroqKey) list \<times> GroqKey list" where
  "groq_run getFamily [] keys = ([], keys)"
| "groq_run getFamily (c # cs) keys =
     (case fst c of
        Get rawModel \<Rightarrow>
          (case groq_get getFamily rawModel (snd c) keys of
             Inl e \<Rightarrow>
               (Inl e # fst (groq_run getFamily cs keys), snd (groq_run getFamily cs keys))
           | Inr r \<Rightarrow>
               (Inr (fst r) # fst (groq_run getFamily cs (snd r)),
                snd (groq_run getFamily cs (snd r))))
      | Update h upd \<Rightarrow>
          (case groq_update h upd (snd c) keys of
             Inl e \<Rightarrow> groq_run getFamily cs keys
           | Inr keys' \<Rightarrow> groq_run getFamily cs keys'))"

text \<open>The runs in which every \<^verbatim>\<open>update\<close> carries a \<^verbatim>\<open>GroqKeyUpdate\<close>.\<close>

definition groq_checkerCalls :: "(GroqCall \<times> int) list \<Rightarrow> bool" where
  "groq_checkerCalls calls =
     list_all (\<lambda>c. case fst c of Get rawModel \<Rightarrow> True | Update h upd \<Rightarrow> groq_isKeyUpdate upd) calls"


section \<open>Lemmas about selection\<close>

subsection \<open>The sort\<close>

lemma set_insertBy: "set (insertBy cmp x xs) = insert x (set xs)"
  by (induction xs) auto

lemma set_sortBy: "set (sortBy cmp xs) = set xs"
  by (induction xs) (auto simp: set_insertBy)

lemma insertBy_not_Nil: "insertBy cmp x xs \<noteq> []"
  by (cases xs) auto

lemma sortBy_Nil_iff: "sortBy cmp xs = [] \<longleftrightarrow> xs = []"
  by (cases xs) (auto simp: insertBy_not_Nil)

lemma hd_sortBy_in: "xs \<noteq> [] \<Longrightarrow> hd (sortBy cmp xs) \<in> set xs"
  using hd_in_set [of "sortBy cmp xs"] by (simp add: sortBy_Nil_iff set_sortBy)

lemma hd_insertBy:
  "hd (insertBy cmp x ys) = (if ys = [] \<or> cmp x (hd ys) \<le> 0 then x else hd ys)"
  by (cases ys) auto

lemma hd_sortBy_least:
  assumes tot: "\<And>a b. 0 < cmp a b \<Longrightarrow> cmp b a \<le> 0"
    and tr: "\<And>a b c. cmp a b \<le> 0 \<Longrightarrow> cmp b c \<le> 0 \<Longrightarrow> cmp a c \<le> 0"
  shows "y \<in> set xs \<Longrightarrow> cmp (hd (sortBy cmp xs)) y \<le> 0"
proof (induction xs)
  case Nil
  then show ?case by simp
next
  case (Cons x xs)
  have refl: "cmp x x \<le> 0"
  proof (rule ccontr)
    assume n: "\<not> cmp x x \<le> 0"
    then have "0 < cmp x x" by simp
    then have "cmp x x \<le> 0" by (rule tot)
    with n show False by simp
  qed
  show ?case
  proof (cases "xs = []")
    case True
    with Cons.prems have "y = x" by simp
    with True refl show ?thesis by simp
  next
    case False
    let ?h = "hd (sortBy cmp xs)"
    have ne: "sortBy cmp xs \<noteq> []" using False by (simp add: sortBy_Nil_iff)
    have hd: "hd (sortBy cmp (x # xs)) = (if cmp x ?h \<le> 0 then x else ?h)"
      using ne by (simp add: hd_insertBy)
    show ?thesis
    proof (cases "cmp x ?h \<le> 0")
      case True
      note xh = this
      show ?thesis
      proof (cases "y = x")
        case True
        with xh hd refl show ?thesis by simp
      next
        case False
        with Cons.prems have "y \<in> set xs" by simp
        then have "cmp ?h y \<le> 0" by (rule Cons.IH)
        with xh have "cmp x y \<le> 0" by (rule tr)
        with xh hd show ?thesis by simp
      qed
    next
      case False
      note xh = this
      show ?thesis
      proof (cases "y = x")
        case True
        from xh have "0 < cmp x ?h" by simp
        then have "cmp ?h x \<le> 0" by (rule tot)
        with xh hd True show ?thesis by simp
      next
        case False
        with Cons.prems have "y \<in> set xs" by simp
        then have "cmp ?h y \<le> 0" by (rule Cons.IH)
        with xh hd show ?thesis by simp
      qed
    qed
  qed
qed

subsection \<open>Selection, Groq\<close>

lemma groq_availableKeys_iff:
  "i \<in> set (groq_availableKeys fam now keys) \<longleftrightarrow>
     i < length keys \<and> groq_isAvailable fam now (keys ! i)"
  by (simp add: groq_availableKeys_def)

lemma groq_get_unfold:
  "groq_get getFamily rawModel now keys =
     (if groq_availableKeys (getFamily rawModel) now keys = []
      then Inl (PaymentRequiredError ''No active Groq keys available.'')
      else Inr ((keys ! groq_selected (getFamily rawModel) now keys)\<lparr>lastUsed := now\<rparr>,
                keys[groq_selected (getFamily rawModel) now keys :=
                       (keys ! groq_selected (getFamily rawModel) now keys)\<lparr>lastUsed := now\<rparr>]))"
  by (simp add: groq_get_def groq_selected_def Let_def)

lemma groq_selected_available:
  "groq_availableKeys fam now keys \<noteq> [] \<Longrightarrow>
     groq_selected fam now keys \<in> set (groq_availableKeys fam now keys)"
  unfolding groq_selected_def by (rule hd_sortBy_in)

lemma groq_get_Inr:
  assumes "groq_get getFamily rawModel now keys = Inr (k, keys')"
  shows "groq_availableKeys (getFamily rawModel) now keys \<noteq> []"
    and "k = (keys ! groq_selected (getFamily rawModel) now keys)\<lparr>lastUsed := now\<rparr>"
    and "keys' = keys[groq_selected (getFamily rawModel) now keys := k]"
proof -
  show ne: "groq_availableKeys (getFamily rawModel) now keys \<noteq> []"
    using assms by (auto simp: groq_get_unfold)
  from assms ne
  show "k = (keys ! groq_selected (getFamily rawModel) now keys)\<lparr>lastUsed := now\<rparr>"
    by (auto simp: groq_get_unfold)
  from assms ne
  show "keys' = keys[groq_selected (getFamily rawModel) now keys := k]"
    by (auto simp: groq_get_unfold)
qed

subsection \<open>Selection, OpenRouter\<close>

lemma openrouter_availableKeys_iff:
  "i \<in> set (openrouter_availableKeys fam now keys) \<longleftrightarrow>
     i < length keys \<and> openrouter_isAvailable fam now (keys ! i)"
  by (simp add: openrouter_availableKeys_def)

lemma openrouter_get_unfold:
  "openrouter_get getFamily rawModel now keys =
     (if openrouter_availableKeys (getFamily rawModel) now keys = []
      then Inl (PaymentRequiredError
                (if getFamily rawModel = ''openrouter-paid''
                 then ''No active OpenRouter Paid keys available (Balance depleted or key limit reached).''
                 else ''No active OpenRouter Free keys available (Free tier exhausted).''))
      else Inr ((keys ! openrouter_selected (getFamily rawModel) now keys)\<lparr>lastUsed := now\<rparr>,
                keys[openrouter_selected (getFamily rawModel) now keys :=
                       (keys ! openrouter_selected (getFamily rawModel) now keys)\<lparr>lastUsed := now\<rparr>]))"
  by (simp add: openrouter_get_def openrouter_selected_def Let_def)

lemma openrouter_selected_available:
  "openrouter_availableKeys fam now keys \<noteq> [] \<Longrightarrow>
     openrouter_selected fam now keys \<in> set (openrouter_availableKeys fam now keys)"
  unfolding openrouter_selected_def by (rule hd_sortBy_in)

lemma openrouter_get_Inr:
  assumes "openrouter_get getFamily rawModel now keys = Inr (k, keys')"
  shows "openrouter_availableKeys (getFamily rawModel) now keys \<noteq> []"
    and "k = (keys ! openrouter_selected (getFamily rawModel) now keys)\<lparr>lastUsed := now\<rparr>"
    and "keys' = keys[openrouter_selected (getFamily rawModel) now keys := k]"
proof -
  show ne: "openrouter_availableKeys (getFamily rawModel) now keys \<noteq> []"
    using assms by (auto simp: openrouter_get_unfold split: if_splits)
  from assms ne
  show "k = (keys ! openrouter_selected (getFamily rawModel) now keys)\<lparr>lastUsed := now\<rparr>"
    by (auto simp: openrouter_get_unfold)
  from assms ne
  show "keys' = keys[openrouter_selected (getFamily rawModel) now keys := k]"
    by (auto simp: openrouter_get_unfold)
qed

subsection \<open>Lookup by hash\<close>

lemma findIndex_None_iff: "findIndex P xs = None \<longleftrightarrow> (\<forall>x\<in>set xs. \<not> P x)"
  by (induction xs) (auto split: option.splits)

lemma findIndex_Some:
  "findIndex P xs = Some i \<Longrightarrow> i < length xs \<and> P (xs ! i) \<and> (\<forall>j<i. \<not> P (xs ! j))"
proof (induction xs arbitrary: i)
  case Nil
  then show ?case by simp
next
  case (Cons x xs)
  show ?case
  proof (cases "P x")
    case True
    with Cons.prems show ?thesis by simp
  next
    case False
    with Cons.prems obtain i' where i': "findIndex P xs = Some i'" "i = Suc i'"
      by (auto split: option.splits)
    from Cons.IH [OF i'(1)] have "i' < length xs" "P (xs ! i')" "\<forall>j<i'. \<not> P (xs ! j)"
      by simp_all
    with False i'(2) show ?thesis by (auto simp: less_Suc_eq_0_disj)
  qed
qed

lemma findIndex_first:
  "i < length xs \<Longrightarrow> P (xs ! i) \<Longrightarrow> \<forall>j<i. \<not> P (xs ! j) \<Longrightarrow> findIndex P xs = Some i"
proof (induction xs arbitrary: i)
  case Nil
  then show ?case by simp
next
  case (Cons x xs)
  show ?case
  proof (cases i)
    case 0
    with Cons.prems show ?thesis by simp
  next
    case (Suc i')
    with Cons.prems have "\<not> P x" by auto
    moreover have "findIndex P xs = Some i'"
    proof (rule Cons.IH)
      show "i' < length xs" using Cons.prems(1) Suc by simp
      show "P (xs ! i')" using Cons.prems(2) Suc by simp
      show "\<forall>j<i'. \<not> P (xs ! j)"
      proof (intro allI impI)
        fix j assume "j < i'"
        then have "Suc j < i" using Suc by simp
        with Cons.prems(3) have "\<not> P ((x # xs) ! Suc j)" by blast
        then show "\<not> P (xs ! j)" by simp
      qed
    qed
    ultimately show ?thesis using Suc by simp
  qed
qed

lemma findByHash_None_iff: "findByHash h keys = None \<longleftrightarrow> h \<notin> hash ` set keys"
  by (auto simp: findByHash_def findIndex_None_iff)

lemma findByHash_Some:
  "findByHash h keys = Some i \<Longrightarrow> i < length keys \<and> hash (keys ! i) = h"
  unfolding findByHash_def by (drule findIndex_Some) simp

lemma findByHash_write:
  assumes "findByHash h keys = Some i" and "hash k' = h"
  shows "findByHash h (keys[i := k']) = Some i"
  unfolding findByHash_def
proof (rule findIndex_first)
  from assms(1) have i: "i < length keys" and first: "\<forall>j<i. hash (keys ! j) \<noteq> h"
    unfolding findByHash_def by (auto dest: findIndex_Some)
  show "i < length (keys[i := k'])" using i by simp
  show "hash (keys[i := k'] ! i) = h" using i assms(2) by simp
  show "\<forall>j<i. \<not> hash (keys[i := k'] ! j) = h" using first by simp
qed

subsection \<open>The flags \<^verbatim>\<open>update\<close> derives\<close>

lemma isPaid_status:
  "startsWith (statusString s) ''PAID'' \<longleftrightarrow> s \<in> {PAID_Balance, PAID_No_Credits, PAID_Limit_Reached}"
  by (cases s) (simp_all add: startsWith_def)

lemma isFree_status:
  "startsWith (statusString s) ''FREE'' \<longleftrightarrow> s \<in> {FREE_Active, FREE_Exhausted}"
  by (cases s) (simp_all add: startsWith_def)

lemma isOverQuota_status:
  "includes_str (statusString s) ''No Credits'' \<or> includes_str (statusString s) ''Exhausted'' \<or>
   includes_str (statusString s) ''Limit Reached'' \<longleftrightarrow>
   s \<in> {PAID_No_Credits, PAID_Limit_Reached, FREE_Exhausted}"
  by (cases s) (simp_all add: includes_str_def sublist_code)

lemma findByHash_single: "findByHash (hash k) [k] = Some 0"
  by (simp add: findByHash_def)

lemma groq_update_found:
  "findByHash h keys = Some i \<Longrightarrow>
   groq_update h upd now keys =
     Inr (keys[i := groq_assign ((keys ! i)\<lparr>lastChecked := now\<rparr>) (groq_deriveFlags (keys ! i) upd)])"
  by (simp add: groq_update_def Let_def)

lemma openrouter_update_found:
  "findByHash h keys = Some i \<Longrightarrow>
   openrouter_update h upd now keys =
     Inr (keys[i := openrouter_assign ((keys ! i)\<lparr>lastChecked := now\<rparr>)
                                     (openrouter_deriveFlags (keys ! i) upd)])"
  by (simp add: openrouter_update_def Let_def)

subsection \<open>The comparators\<close>

lemma groq_compare_le_iff:
  "groq_compare a b \<le> 0 \<longleftrightarrow>
     groq_STATUS_PRIORITY (status b) < groq_STATUS_PRIORITY (status a) \<or>
     (groq_STATUS_PRIORITY (status a) = groq_STATUS_PRIORITY (status b) \<and> lastUsed a \<le> lastUsed b)"
  by (auto simp: groq_compare_def Let_def)

lemma openrouter_compare_le_iff:
  "openrouter_compare a b \<le> 0 \<longleftrightarrow>
     openrouter_STATUS_PRIORITY (status b) < openrouter_STATUS_PRIORITY (status a) \<or>
     (openrouter_STATUS_PRIORITY (status a) = openrouter_STATUS_PRIORITY (status b) \<and>
        (orElse (remainingBalance b) 0 < orElse (remainingBalance a) 0 \<or>
         (orElse (remainingBalance a) 0 = orElse (remainingBalance b) 0 \<and>
          lastUsed a \<le> lastUsed b)))"
  by (auto simp: openrouter_compare_def Let_def)

lemma groq_selected_least:
  assumes "j \<in> set (groq_availableKeys fam now keys)"
  shows "groq_compare (keys ! groq_selected fam now keys) (keys ! j) \<le> 0"
  unfolding groq_selected_def
proof (rule hd_sortBy_least [where cmp = "\<lambda>a b. groq_compare (keys ! a) (keys ! b)"])
  show "\<And>a b. 0 < groq_compare (keys ! a) (keys ! b) \<Longrightarrow> groq_compare (keys ! b) (keys ! a) \<le> 0"
  proof -
    fix a b assume "0 < groq_compare (keys ! a) (keys ! b)"
    then have "\<not> groq_compare (keys ! a) (keys ! b) \<le> 0" by simp
    then show "groq_compare (keys ! b) (keys ! a) \<le> 0"
      unfolding groq_compare_le_iff by auto
  qed
  show "\<And>a b c. groq_compare (keys ! a) (keys ! b) \<le> 0 \<Longrightarrow>
          groq_compare (keys ! b) (keys ! c) \<le> 0 \<Longrightarrow> groq_compare (keys ! a) (keys ! c) \<le> 0"
    unfolding groq_compare_le_iff by auto
  show "j \<in> set (groq_availableKeys fam now keys)" by fact
qed

lemma openrouter_selected_least:
  assumes "j \<in> set (openrouter_availableKeys fam now keys)"
  shows "openrouter_compare (keys ! openrouter_selected fam now keys) (keys ! j) \<le> 0"
  unfolding openrouter_selected_def
proof (rule hd_sortBy_least [where cmp = "\<lambda>a b. openrouter_compare (keys ! a) (keys ! b)"])
  show "\<And>a b. 0 < openrouter_compare (keys ! a) (keys ! b) \<Longrightarrow>
          openrouter_compare (keys ! b) (keys ! a) \<le> 0"
  proof -
    fix a b assume "0 < openrouter_compare (keys ! a) (keys ! b)"
    then have "\<not> openrouter_compare (keys ! a) (keys ! b) \<le> 0" by simp
    then show "openrouter_compare (keys ! b) (keys ! a) \<le> 0"
      unfolding openrouter_compare_le_iff by auto
  qed
  show "\<And>a b c. openrouter_compare (keys ! a) (keys ! b) \<le> 0 \<Longrightarrow>
          openrouter_compare (keys ! b) (keys ! c) \<le> 0 \<Longrightarrow>
          openrouter_compare (keys ! a) (keys ! c) \<le> 0"
    unfolding openrouter_compare_le_iff by auto
  show "j \<in> set (openrouter_availableKeys fam now keys)" by fact
qed

subsection \<open>Marking a Groq key rate limited\<close>

lemma groq_deriveFlags_rate_limited:
  "groq_assign k (groq_deriveFlags k0
      (groq_noUpdate\<lparr>status' := Some RATE_LIMITED, info' := Some msg\<rparr>)) =
   k\<lparr> status := RATE_LIMITED, info := msg, isOverQuota := True,
       isDisabled := (if status k0 = DEAD \<or> status k0 = INVALID then False else isDisabled k),
       isRevoked := (if status k0 = DEAD \<or> status k0 = INVALID then False else isRevoked k) \<rparr>"
  by (simp add: groq_assign_def assignKey_def orElse_def groq_deriveFlags_def groq_noUpdate_def
        Let_def)

lemma groq_markRateLimited_found:
  assumes g: "findByHash h keys = Some i"
  shows "groq_markRateLimited h now keys =
           Inr (keys[i := (keys ! i)
                  \<lparr> rateLimitedAt := now, rateLimitedUntil := now + groq_RATE_LIMIT_LOCKOUT,
                    lastChecked := now, status := RATE_LIMITED,
                    info := ''Rate limited by proxy'', isOverQuota := True,
                    isDisabled := (if status (keys ! i) = DEAD \<or> status (keys ! i) = INVALID
                                   then False else isDisabled (keys ! i)),
                    isRevoked := (if status (keys ! i) = DEAD \<or> status (keys ! i) = INVALID
                                  then False else isRevoked (keys ! i)) \<rparr>])"
proof -
  from g have i: "i < length keys" and hi: "hash (keys ! i) = h"
    by (simp_all add: findByHash_Some)
  let ?k1 = "(keys ! i)\<lparr>rateLimitedAt := now, rateLimitedUntil := now + groq_RATE_LIMIT_LOCKOUT\<rparr>"
  have f: "findByHash h (keys[i := ?k1]) = Some i"
    using g by (rule findByHash_write) (simp add: hi)
  have "groq_markRateLimited h now keys =
           groq_update h
             (groq_noUpdate\<lparr>status' := Some RATE_LIMITED, info' := Some ''Rate limited by proxy''\<rparr>)
             now (keys[i := ?k1])"
    by (simp add: groq_markRateLimited_def g)
  then show ?thesis
    using i by (simp add: groq_update_found [OF f] groq_deriveFlags_rate_limited)
qed

section \<open>C1: what \<^verbatim>\<open>get\<close> never returns\<close>

lemma groq_get_example:
  "groq_get (\<lambda>m. ''groq-kimi'') ''kimi-k2'' 1000
     [(groq_newKey ''gsk-a'' ''groq-0000000a'')\<lparr>status := ACTIVE\<rparr>] =
   Inr ((groq_newKey ''gsk-a'' ''groq-0000000a'')\<lparr>status := ACTIVE, lastUsed := 1000\<rparr>,
        [(groq_newKey ''gsk-a'' ''groq-0000000a'')\<lparr>status := ACTIVE, lastUsed := 1000\<rparr>])"
  by (simp add: groq_get_def groq_availableKeys_def groq_isAvailable_def groq_newKey_def Let_def)

lemma openrouter_get_example:
  "openrouter_get (\<lambda>m. ''openrouter-free'') ''some/model:free'' 1000
     [(openrouter_newKey ''sk-or-a'' ''or-0000000a'')\<lparr>status := FREE_Active, isFreeTier := True\<rparr>] =
   Inr ((openrouter_newKey ''sk-or-a'' ''or-0000000a'')
          \<lparr>status := FREE_Active, isFreeTier := True, lastUsed := 1000\<rparr>,
        [(openrouter_newKey ''sk-or-a'' ''or-0000000a'')
          \<lparr>status := FREE_Active, isFreeTier := True, lastUsed := 1000\<rparr>])"
  by (simp add: openrouter_get_def openrouter_availableKeys_def openrouter_isAvailable_def
        openrouter_newKey_def Let_def)

text \<open>
  C1. Whenever \<^verbatim>\<open>get\<close> returns a credential, for either provider, the credential is the copy
  of a pool record that passed the filter at the time of the call, stamped with the new
  \<^verbatim>\<open>lastUsed\<close>; its status has a nonzero selection priority, it is not disabled, and the
  time of the call is not before its \<^verbatim>\<open>rateLimitedUntil\<close>.
\<close>

theorem get_never_returns_unusable:
  "(groq_get gf gm gnow gkeys = Inr (gk, gkeys') \<longrightarrow>
      (\<exists>i < length gkeys. gk = (gkeys ! i)\<lparr>lastUsed := gnow\<rparr> \<and>
          groq_isAvailable (gf gm) gnow (gkeys ! i)) \<and>
      groq_STATUS_PRIORITY (status gk) \<noteq> 0 \<and> \<not> isDisabled gk \<and>
      \<not> gnow < rateLimitedUntil gk) \<and>
   (openrouter_get rf rm rnow rkeys = Inr (rk, rkeys') \<longrightarrow>
      (\<exists>i < length rkeys. rk = (rkeys ! i)\<lparr>lastUsed := rnow\<rparr> \<and>
          openrouter_isAvailable (rf rm) rnow (rkeys ! i)) \<and>
      openrouter_STATUS_PRIORITY (status rk) \<noteq> 0 \<and> \<not> isDisabled rk \<and>
      \<not> rnow < rateLimitedUntil rk)"
proof (intro conjI impI)
  assume g: "groq_get gf gm gnow gkeys = Inr (gk, gkeys')"
  let ?i = "groq_selected (gf gm) gnow gkeys"
  from g have "?i \<in> set (groq_availableKeys (gf gm) gnow gkeys)"
    by (intro groq_selected_available groq_get_Inr(1))
  then have i: "?i < length gkeys" and av: "groq_isAvailable (gf gm) gnow (gkeys ! ?i)"
    by (simp_all add: groq_availableKeys_iff)
  have k: "gk = (gkeys ! ?i)\<lparr>lastUsed := gnow\<rparr>" using g by (rule groq_get_Inr(2))
  from i k av show "\<exists>i < length gkeys. gk = (gkeys ! i)\<lparr>lastUsed := gnow\<rparr> \<and>
          groq_isAvailable (gf gm) gnow (gkeys ! i)" by blast
  from av show "groq_STATUS_PRIORITY (status gk) \<noteq> 0"
    unfolding k groq_isAvailable_def by (simp split: if_splits)
  from av show "\<not> isDisabled gk"
    unfolding k groq_isAvailable_def by (simp split: if_splits)
  from av show "\<not> gnow < rateLimitedUntil gk"
    unfolding k groq_isAvailable_def by (simp split: if_splits)
next
  assume g: "openrouter_get rf rm rnow rkeys = Inr (rk, rkeys')"
  let ?i = "openrouter_selected (rf rm) rnow rkeys"
  from g have "?i \<in> set (openrouter_availableKeys (rf rm) rnow rkeys)"
    by (intro openrouter_selected_available openrouter_get_Inr(1))
  then have i: "?i < length rkeys" and av: "openrouter_isAvailable (rf rm) rnow (rkeys ! ?i)"
    by (simp_all add: openrouter_availableKeys_iff)
  have k: "rk = (rkeys ! ?i)\<lparr>lastUsed := rnow\<rparr>" using g by (rule openrouter_get_Inr(2))
  from i k av show "\<exists>i < length rkeys. rk = (rkeys ! i)\<lparr>lastUsed := rnow\<rparr> \<and>
          openrouter_isAvailable (rf rm) rnow (rkeys ! i)" by blast
  from av show "openrouter_STATUS_PRIORITY (status rk) \<noteq> 0"
    unfolding k openrouter_isAvailable_def by (simp split: if_splits)
  from av show "\<not> isDisabled rk"
    unfolding k openrouter_isAvailable_def by (simp split: if_splits)
  from av show "\<not> rnow < rateLimitedUntil rk"
    unfolding k openrouter_isAvailable_def by (simp split: if_splits)
qed

text \<open>The theorem at a pool of one active Groq key and a pool of one free OpenRouter key.\<close>

theorem get_never_returns_unusable_witness:
  "groq_get (\<lambda>m. ''groq-kimi'') ''kimi-k2'' 1000
     [(groq_newKey ''gsk-a'' ''groq-0000000a'')\<lparr>status := ACTIVE\<rparr>] =
   Inr ((groq_newKey ''gsk-a'' ''groq-0000000a'')\<lparr>status := ACTIVE, lastUsed := 1000\<rparr>,
        [(groq_newKey ''gsk-a'' ''groq-0000000a'')\<lparr>status := ACTIVE, lastUsed := 1000\<rparr>]) \<and>
   groq_STATUS_PRIORITY
     (status ((groq_newKey ''gsk-a'' ''groq-0000000a'')\<lparr>status := ACTIVE, lastUsed := 1000\<rparr>)) \<noteq> 0 \<and>
   \<not> isDisabled ((groq_newKey ''gsk-a'' ''groq-0000000a'')\<lparr>status := ACTIVE, lastUsed := 1000\<rparr>) \<and>
   \<not> 1000 < rateLimitedUntil
         ((groq_newKey ''gsk-a'' ''groq-0000000a'')\<lparr>status := ACTIVE, lastUsed := 1000\<rparr>) \<and>
   openrouter_get (\<lambda>m. ''openrouter-free'') ''some/model:free'' 1000
     [(openrouter_newKey ''sk-or-a'' ''or-0000000a'')\<lparr>status := FREE_Active, isFreeTier := True\<rparr>] =
   Inr ((openrouter_newKey ''sk-or-a'' ''or-0000000a'')
          \<lparr>status := FREE_Active, isFreeTier := True, lastUsed := 1000\<rparr>,
        [(openrouter_newKey ''sk-or-a'' ''or-0000000a'')
          \<lparr>status := FREE_Active, isFreeTier := True, lastUsed := 1000\<rparr>]) \<and>
   openrouter_STATUS_PRIORITY
     (status ((openrouter_newKey ''sk-or-a'' ''or-0000000a'')
          \<lparr>status := FREE_Active, isFreeTier := True, lastUsed := 1000\<rparr>)) \<noteq> 0 \<and>
   \<not> isDisabled ((openrouter_newKey ''sk-or-a'' ''or-0000000a'')
          \<lparr>status := FREE_Active, isFreeTier := True, lastUsed := 1000\<rparr>) \<and>
   \<not> 1000 < rateLimitedUntil ((openrouter_newKey ''sk-or-a'' ''or-0000000a'')
          \<lparr>status := FREE_Active, isFreeTier := True, lastUsed := 1000\<rparr>)"
  using get_never_returns_unusable
          [of "\<lambda>m. ''groq-kimi''" "''kimi-k2''" 1000
              "[(groq_newKey ''gsk-a'' ''groq-0000000a'')\<lparr>status := ACTIVE\<rparr>]"
              "(groq_newKey ''gsk-a'' ''groq-0000000a'')\<lparr>status := ACTIVE, lastUsed := 1000\<rparr>"
              "[(groq_newKey ''gsk-a'' ''groq-0000000a'')\<lparr>status := ACTIVE, lastUsed := 1000\<rparr>]"
              "\<lambda>m. ''openrouter-free''" "''some/model:free''" 1000
              "[(openrouter_newKey ''sk-or-a'' ''or-0000000a'')\<lparr>status := FREE_Active, isFreeTier := True\<rparr>]"
              "(openrouter_newKey ''sk-or-a'' ''or-0000000a'')
                 \<lparr>status := FREE_Active, isFreeTier := True, lastUsed := 1000\<rparr>"
              "[(openrouter_newKey ''sk-or-a'' ''or-0000000a'')
                 \<lparr>status := FREE_Active, isFreeTier := True, lastUsed := 1000\<rparr>]"]
        groq_get_example openrouter_get_example
  by blast

section \<open>C2: \<^verbatim>\<open>recheck\<close>\<close>

lemma openrouter_recheck_single:
  "openrouter_recheck now [k] =
     Inr [k\<lparr> isDisabled := True, isRevoked := False, isOverQuota := False, lastChecked := 0,
             status := UNKNOWN_Rate_Limited, info := ''Recheck scheduled'',
             isPaid := False, remainingBalance := None, isFreeTier := False \<rparr>]"
  by (simp add: openrouter_recheck_def openrouter_update_found [OF findByHash_single]
        openrouter_assign_def assignKey_def orElse_def openrouter_deriveFlags_def
        openrouter_recheckUpdate_def openrouter_noUpdate_def Let_def
        startsWith_def includes_str_def sublist_code)

lemma groq_recheck_single:
  "groq_recheck now [k] =
     Inr [k\<lparr> isDisabled := False, isRevoked := False, isOverQuota := False, lastChecked := 0,
             status := UNKNOWN, info := ''Recheck scheduled'', rateLimitInfo := None \<rparr>]"
  by (simp add: groq_recheck_def groq_update_found [OF findByHash_single]
        groq_assign_def assignKey_def orElse_def groq_deriveFlags_def
        groq_recheckUpdate_def groq_noUpdate_def Let_def)

text \<open>
  C2. The claim asks that after \<^verbatim>\<open>recheck()\<close> every credential has the unchecked status,
  \<^verbatim>\<open>isDisabled\<close>, \<^verbatim>\<open>isRevoked\<close> and \<^verbatim>\<open>isOverQuota\<close> false and \<^verbatim>\<open>lastChecked\<close> zero. On the
  OpenRouter pool of one credential, whatever its state before, \<^verbatim>\<open>recheck\<close> passes
  \<^verbatim>\<open>isDisabled: false\<close> to \<^verbatim>\<open>update\<close>, which overwrites it with \<^verbatim>\<open>true\<close> because the status
  is \<^verbatim>\<open>UNKNOWN (Rate Limited)\<close>: the credential ends disabled, and \<^verbatim>\<open>available()\<close> is 0.
\<close>

theorem openrouter_recheck_leaves_disabled:
  "\<exists>k'. openrouter_recheck now [k] = Inr [k'] \<and>
        status k' = UNKNOWN_Rate_Limited \<and> isDisabled k' \<and>
        \<not> isRevoked k' \<and> \<not> isOverQuota k' \<and> lastChecked k' = 0 \<and>
        available [k'] = 0"
  by (simp add: openrouter_recheck_single available_def)

section \<open>C3: a probe answered with HTTP 401\<close>

lemma groq_401_single:
  "groq_handleAxiosError k (Some 401) now [k] =
     Inr [k\<lparr> isDisabled := True, isRevoked := False, isOverQuota := True, lastChecked := now,
             status := INVALID, info := ''Invalid API key.'' \<rparr>]"
  by (simp add: groq_handleAxiosError_def groq_update_found [OF findByHash_single]
        groq_assign_def assignKey_def orElse_def groq_deriveFlags_def groq_noUpdate_def Let_def)

text \<open>
  The same holds for every call of \<^verbatim>\<open>update\<close> that carries the status \<^verbatim>\<open>INVALID\<close>, such as the
  one \<^verbatim>\<open>testKeyOrFail\<close> makes when \<^verbatim>\<open>testKey\<close> classifies a 401: whatever \<^verbatim>\<open>isRevoked\<close> the
  update carries, the record ends disabled and not revoked.
\<close>

lemma groq_update_INVALID_not_revoked:
  assumes "findByHash h keys = Some i" and "status' upd = Some INVALID"
  shows "\<exists>keys'. groq_update h upd now keys = Inr keys' \<and>
           isDisabled (keys' ! i) \<and> \<not> isRevoked (keys' ! i)"
proof -
  from assms(1) have i: "i < length keys" by (simp add: findByHash_Some)
  have "isDisabled (groq_assign k (groq_deriveFlags k0 upd)) \<and>
        \<not> isRevoked (groq_assign k (groq_deriveFlags k0 upd))" for k k0
    using assms(2)
    by (simp add: groq_assign_def assignKey_def orElse_def groq_deriveFlags_def Let_def)
  with i show ?thesis
    by (simp add: groq_update_found [OF assms(1)])
qed

text \<open>
  C3. The claim asks that a 401 on the probe leaves the credential with a permanent-failure
  status, disabled and revoked, excluded by \<^verbatim>\<open>get\<close> and listed as disabled and revoked. On
  the Groq pool of one credential, whatever its state before, the hook passes
  \<^verbatim>\<open>isRevoked: true\<close> to \<^verbatim>\<open>update\<close>, which overwrites it with \<^verbatim>\<open>status === 'DEAD'\<close>, false
  for \<^verbatim>\<open>INVALID\<close>: the credential ends \<^verbatim>\<open>INVALID\<close> and disabled, \<^verbatim>\<open>get\<close> throws the exhaustion
  error, but the record and its listing are not revoked.
\<close>

theorem groq_401_not_revoked:
  "\<exists>k'. groq_handleAxiosError k (Some 401) now [k] = Inr [k'] \<and>
        status k' = INVALID \<and> isDisabled k' \<and> \<not> isRevoked k' \<and>
        map isRevoked (list_keys [k']) = [False] \<and>
        map isDisabled (list_keys [k']) = [True] \<and>
        groq_get getFamily rawModel later [k'] =
          Inl (PaymentRequiredError ''No active Groq keys available.'')"
  by (simp add: groq_401_single list_keys_def groq_get_def groq_availableKeys_def
        groq_isAvailable_def)

section \<open>C4: \<^verbatim>\<open>markRateLimited\<close>\<close>

text \<open>
  The claim of C4 as it is written fails on the OpenRouter provider: after
  \<^verbatim>\<open>markRateLimited\<close> on a credential with status \<^verbatim>\<open>PAID (Balance)\<close> the two timestamps are set,
  but the status is still \<^verbatim>\<open>PAID (Balance)\<close> and \<^verbatim>\<open>lastChecked\<close> is untouched, which no call of
  \<^verbatim>\<open>update\<close> with the rate-limited status would leave behind.
\<close>

theorem openrouter_markRateLimited_counterexample:
  "openrouter_markRateLimited ''or-0000000a'' 1000
     [(openrouter_newKey ''sk-or-a'' ''or-0000000a'')
        \<lparr>status := PAID_Balance, isPaid := True, remainingBalance := Some 5\<rparr>] =
   Inr [(openrouter_newKey ''sk-or-a'' ''or-0000000a'')
        \<lparr>status := PAID_Balance, isPaid := True, remainingBalance := Some 5,
         rateLimitedAt := 1000, rateLimitedUntil := 16000\<rparr>] \<and>
   status ((openrouter_newKey ''sk-or-a'' ''or-0000000a'')
        \<lparr>status := PAID_Balance, isPaid := True, remainingBalance := Some 5,
         rateLimitedAt := 1000, rateLimitedUntil := 16000\<rparr>) = PAID_Balance \<and>
   lastChecked ((openrouter_newKey ''sk-or-a'' ''or-0000000a'')
        \<lparr>status := PAID_Balance, isPaid := True, remainingBalance := Some 5,
         rateLimitedAt := 1000, rateLimitedUntil := 16000\<rparr>) = 0 \<and>
   openrouter_update ''or-0000000a''
     (openrouter_noUpdate\<lparr>status' := Some UNKNOWN_Rate_Limited\<rparr>) 1000
     [(openrouter_newKey ''sk-or-a'' ''or-0000000a'')
        \<lparr>status := PAID_Balance, isPaid := True, remainingBalance := Some 5,
         rateLimitedAt := 1000, rateLimitedUntil := 16000\<rparr>] \<noteq>
   Inr [(openrouter_newKey ''sk-or-a'' ''or-0000000a'')
        \<lparr>status := PAID_Balance, isPaid := True, remainingBalance := Some 5,
         rateLimitedAt := 1000, rateLimitedUntil := 16000\<rparr>]"
  by (simp add: openrouter_markRateLimited_def openrouter_update_def findByHash_def
        openrouter_newKey_def openrouter_RATE_LIMIT_LOCKOUT_def openrouter_assign_def
        assignKey_def orElse_def openrouter_deriveFlags_def openrouter_noUpdate_def Let_def
        startsWith_def includes_str_def sublist_code)

text \<open>
  C4, amended. For a hash present in the pool, \<^verbatim>\<open>markRateLimited\<close> sets \<^verbatim>\<open>rateLimitedAt\<close> to
  the current time and \<^verbatim>\<open>rateLimitedUntil\<close> to the current time plus the provider's lockout
  (60000 ms for Groq, 15000 ms for OpenRouter). The Groq provider then runs \<^verbatim>\<open>update\<close> with
  the status \<^verbatim>\<open>RATE_LIMITED\<close>: the record ends with that status, \<^verbatim>\<open>isOverQuota\<close> true,
  \<^verbatim>\<open>lastChecked\<close> the current time, and \<^verbatim>\<open>isDisabled\<close>/\<^verbatim>\<open>isRevoked\<close> cleared if the status before
  was \<^verbatim>\<open>DEAD\<close> or \<^verbatim>\<open>INVALID\<close> and kept otherwise. The OpenRouter provider changes nothing but
  the two timestamps.
\<close>

theorem markRateLimited_effect:
  assumes g: "findByHash hg gkeys = Some i" and r: "findByHash hr rkeys = Some j"
  shows "groq_markRateLimited hg now gkeys =
           Inr (gkeys[i := (gkeys ! i)
                  \<lparr> rateLimitedAt := now, rateLimitedUntil := now + 60000,
                    lastChecked := now, status := RATE_LIMITED,
                    info := ''Rate limited by proxy'', isOverQuota := True,
                    isDisabled := (if status (gkeys ! i) = DEAD \<or> status (gkeys ! i) = INVALID
                                   then False else isDisabled (gkeys ! i)),
                    isRevoked := (if status (gkeys ! i) = DEAD \<or> status (gkeys ! i) = INVALID
                                  then False else isRevoked (gkeys ! i)) \<rparr>]) \<and>
         groq_markRateLimited hg now gkeys =
           groq_update hg
             (groq_noUpdate\<lparr>status' := Some RATE_LIMITED, info' := Some ''Rate limited by proxy''\<rparr>)
             now (gkeys[i := (gkeys ! i)\<lparr>rateLimitedAt := now, rateLimitedUntil := now + 60000\<rparr>]) \<and>
         openrouter_markRateLimited hr now rkeys =
           Inr (rkeys[j := (rkeys ! j)\<lparr>rateLimitedAt := now, rateLimitedUntil := now + 15000\<rparr>])"
proof (intro conjI)
  from g have i: "i < length gkeys" and hi: "hash (gkeys ! i) = hg"
    by (simp_all add: findByHash_Some)
  let ?k1 = "(gkeys ! i)\<lparr>rateLimitedAt := now, rateLimitedUntil := now + 60000\<rparr>"
  have f: "findByHash hg (gkeys[i := ?k1]) = Some i"
    using g by (rule findByHash_write) (simp add: hi)
  show "groq_markRateLimited hg now gkeys =
           groq_update hg
             (groq_noUpdate\<lparr>status' := Some RATE_LIMITED, info' := Some ''Rate limited by proxy''\<rparr>)
             now (gkeys[i := ?k1])"
    by (simp add: groq_markRateLimited_def g groq_RATE_LIMIT_LOCKOUT_def)
  then show "groq_markRateLimited hg now gkeys =
           Inr (gkeys[i := (gkeys ! i)
                  \<lparr> rateLimitedAt := now, rateLimitedUntil := now + 60000,
                    lastChecked := now, status := RATE_LIMITED,
                    info := ''Rate limited by proxy'', isOverQuota := True,
                    isDisabled := (if status (gkeys ! i) = DEAD \<or> status (gkeys ! i) = INVALID
                                   then False else isDisabled (gkeys ! i)),
                    isRevoked := (if status (gkeys ! i) = DEAD \<or> status (gkeys ! i) = INVALID
                                  then False else isRevoked (gkeys ! i)) \<rparr>])"
    using i by (simp add: groq_update_found [OF f] groq_deriveFlags_rate_limited)
  show "openrouter_markRateLimited hr now rkeys =
           Inr (rkeys[j := (rkeys ! j)\<lparr>rateLimitedAt := now, rateLimitedUntil := now + 15000\<rparr>])"
    by (simp add: openrouter_markRateLimited_def r openrouter_RATE_LIMIT_LOCKOUT_def)
qed

text \<open>The theorem at pools of one fresh key each, marked at time 1000.\<close>

theorem markRateLimited_effect_witness:
  "findByHash ''groq-0000000a'' [groq_newKey ''gsk-a'' ''groq-0000000a''] = Some 0 \<and>
   findByHash ''or-0000000a'' [(openrouter_newKey ''sk-or-a'' ''or-0000000a'')] = Some 0 \<and>
   groq_markRateLimited ''groq-0000000a'' 1000 [groq_newKey ''gsk-a'' ''groq-0000000a''] =
     Inr [(groq_newKey ''gsk-a'' ''groq-0000000a'')
            \<lparr> rateLimitedAt := 1000, rateLimitedUntil := 61000, lastChecked := 1000,
              status := RATE_LIMITED, info := ''Rate limited by proxy'', isOverQuota := True \<rparr>] \<and>
   openrouter_markRateLimited ''or-0000000a'' 1000
       [(openrouter_newKey ''sk-or-a'' ''or-0000000a'')] =
     Inr [(openrouter_newKey ''sk-or-a'' ''or-0000000a'')
            \<lparr>rateLimitedAt := 1000, rateLimitedUntil := 16000\<rparr>]"
proof -
  have g: "findByHash ''groq-0000000a'' [groq_newKey ''gsk-a'' ''groq-0000000a''] = Some 0"
    by (simp add: findByHash_def groq_newKey_def)
  have r: "findByHash ''or-0000000a'' [(openrouter_newKey ''sk-or-a'' ''or-0000000a'')] = Some 0"
    by (simp add: findByHash_def openrouter_newKey_def)
  from markRateLimited_effect [OF g r, of 1000] g r show ?thesis
    by (simp add: groq_newKey_def openrouter_newKey_def)
qed

section \<open>C5: the lockout window\<close>

lemma groq_locked_out:
  "now < rateLimitedUntil (q ! i) \<Longrightarrow> i \<notin> set (groq_availableKeys fam now q)"
  by (simp add: groq_availableKeys_iff groq_isAvailable_def)

lemma map_hash_write:
  "s < length q \<Longrightarrow> hash k = hash (q ! s) \<Longrightarrow> map hash (q[s := k]) = map hash q"
  by (simp add: map_update list_update_same_conv)

text \<open>What \<^verbatim>\<open>get\<close> and a checker's \<^verbatim>\<open>update\<close> leave alone: the hashes and every lockout.\<close>

lemma groq_get_keeps:
  assumes "groq_get gf m now q = Inr (k, q')"
  shows "map hash q' = map hash q" and "rateLimitedUntil (q' ! j) = rateLimitedUntil (q ! j)"
proof -
  let ?s = "groq_selected (gf m) now q"
  from assms have "?s \<in> set (groq_availableKeys (gf m) now q)"
    by (intro groq_selected_available groq_get_Inr(1))
  then have s: "?s < length q" by (simp add: groq_availableKeys_iff)
  have k: "k = (q ! ?s)\<lparr>lastUsed := now\<rparr>" using assms by (rule groq_get_Inr(2))
  have q': "q' = q[?s := k]" using assms by (rule groq_get_Inr(3))
  show "map hash q' = map hash q" unfolding q' using s by (rule map_hash_write) (simp add: k)
  show "rateLimitedUntil (q' ! j) = rateLimitedUntil (q ! j)"
    using s by (cases "j = ?s") (simp_all add: q' k)
qed

lemma groq_assign_keeps:
  assumes "groq_isKeyUpdate u"
  shows "hash (groq_assign k (groq_deriveFlags k0 u)) = hash k"
    and "rateLimitedUntil (groq_assign k (groq_deriveFlags k0 u)) = rateLimitedUntil k"
  using assms
  by (simp_all add: groq_isKeyUpdate_def groq_assign_def assignKey_def orElse_def
        groq_deriveFlags_def Let_def split: option.splits)

lemma groq_update_keeps:
  assumes "groq_isKeyUpdate u" and "groq_update h' u now q = Inr q'"
  shows "map hash q' = map hash q" and "rateLimitedUntil (q' ! j) = rateLimitedUntil (q ! j)"
proof -
  from assms(2) obtain s where f: "findByHash h' q = Some s"
    by (cases "findByHash h' q") (simp_all add: groq_update_def)
  then have s: "s < length q" by (simp add: findByHash_Some)
  let ?k = "groq_assign ((q ! s)\<lparr>lastChecked := now\<rparr>) (groq_deriveFlags (q ! s) u)"
  from assms(2) have q': "q' = q[s := ?k]" by (simp add: groq_update_found [OF f])
  have hk: "hash ?k = hash (q ! s)" by (simp add: groq_assign_keeps(1) [OF assms(1)])
  have rk: "rateLimitedUntil ?k = rateLimitedUntil (q ! s)"
    by (simp add: groq_assign_keeps(2) [OF assms(1)])
  show "map hash q' = map hash q" unfolding q' using s hk by (rule map_hash_write)
  show "rateLimitedUntil (q' ! j) = rateLimitedUntil (q ! j)"
    using s rk by (cases "j = s") (simp_all add: q')
qed

lemma groq_run_keeps:
  assumes "groq_checkerCalls calls"
  shows "map hash (snd (groq_run gf calls q)) = map hash q \<and>
         rateLimitedUntil (snd (groq_run gf calls q) ! j) = rateLimitedUntil (q ! j)"
  using assms
proof (induction calls arbitrary: q)
  case Nil
  then show ?case by simp
next
  case (Cons c cs)
  from Cons.prems have cs: "groq_checkerCalls cs" by (simp add: groq_checkerCalls_def)
  note IH = Cons.IH [OF cs]
  show ?case
  proof (cases "fst c")
    case (Get m)
    show ?thesis
    proof (cases "groq_get gf m (snd c) q")
      case (Inl e)
      with Get IH [of q] show ?thesis by simp
    next
      case (Inr r)
      then have g: "groq_get gf m (snd c) q = Inr (fst r, snd r)" by simp
      from groq_get_keeps [OF g] IH [of "snd r"] Get Inr show ?thesis by simp
    qed
  next
    case (Update h' u)
    with Cons.prems have u: "groq_isKeyUpdate u" by (simp add: groq_checkerCalls_def)
    show ?thesis
    proof (cases "groq_update h' u (snd c) q")
      case (Inl e)
      with Update IH [of q] show ?thesis by simp
    next
      case (Inr q1)
      from groq_update_keeps [OF u Inr] IH [of q1] Update Inr show ?thesis by simp
    qed
  qed
qed

lemma groq_run_locked_out:
  assumes "distinct (map hash q)" and "i < length q" and "hash (q ! i) = h"
    and "list_all (\<lambda>c. snd c < rateLimitedUntil (q ! i)) calls"
    and "groq_checkerCalls calls"
  shows "Inr k \<in> set (fst (groq_run gf calls q)) \<Longrightarrow> hash k \<noteq> h"
  using assms
proof (induction calls arbitrary: q)
  case Nil
  then show ?case by simp
next
  case (Cons c cs)
  from Cons.prems have lock: "snd c < rateLimitedUntil (q ! i)"
    and rest: "list_all (\<lambda>c. snd c < rateLimitedUntil (q ! i)) cs"
    and cs: "groq_checkerCalls cs"
    by (simp_all add: groq_checkerCalls_def)
  have step: "hash k \<noteq> h"
    if "Inr k \<in> set (fst (groq_run gf cs q1))" and "map hash q1 = map hash q"
      and "rateLimitedUntil (q1 ! i) = rateLimitedUntil (q ! i)" for q1
  proof (rule Cons.IH [OF that(1)])
    show "distinct (map hash q1)" using Cons.prems(2) that(2) by simp
    have len: "length q1 = length q" using that(2) by (metis length_map)
    show "i < length q1" using Cons.prems(3) len by simp
    have "map hash q1 ! i = map hash q ! i" using that(2) by simp
    then show "hash (q1 ! i) = h" using Cons.prems(3,4) len by simp
    show "list_all (\<lambda>c. snd c < rateLimitedUntil (q1 ! i)) cs" using rest that(3) by simp
    show "groq_checkerCalls cs" by (rule cs)
  qed
  show ?case
  proof (cases "fst c")
    case (Get m)
    show ?thesis
    proof (cases "groq_get gf m (snd c) q")
      case (Inl e)
      with Get Cons.prems(1) have "Inr k \<in> set (fst (groq_run gf cs q))" by simp
      then show ?thesis by (rule step) simp_all
    next
      case (Inr r)
      then have g: "groq_get gf m (snd c) q = Inr (fst r, snd r)" by simp
      let ?s = "groq_selected (gf m) (snd c) q"
      from g have sel: "?s \<in> set (groq_availableKeys (gf m) (snd c) q)"
        by (intro groq_selected_available groq_get_Inr(1))
      then have s: "?s < length q" by (simp add: groq_availableKeys_iff)
      from sel lock have si: "?s \<noteq> i" using groq_locked_out by metis
      have k1: "fst r = (q ! ?s)\<lparr>lastUsed := snd c\<rparr>" using g by (rule groq_get_Inr(2))
      have "hash (q ! ?s) \<noteq> hash (q ! i)"
      proof
        assume "hash (q ! ?s) = hash (q ! i)"
        then have "map hash q ! ?s = map hash q ! i" using s Cons.prems(3) by simp
        with Cons.prems(2) s Cons.prems(3) have "?s = i"
          by (simp add: nth_eq_iff_index_eq del: nth_map)
        with si show False by simp
      qed
      with k1 Cons.prems(4) have k1h: "hash (fst r) \<noteq> h" by simp
      from Get Inr Cons.prems(1)
      have "k = fst r \<or> Inr k \<in> set (fst (groq_run gf cs (snd r)))" by auto
      then show ?thesis
      proof
        assume "k = fst r"
        with k1h show ?thesis by simp
      next
        assume "Inr k \<in> set (fst (groq_run gf cs (snd r)))"
        then show ?thesis
          by (rule step) (simp_all add: groq_get_keeps [OF g])
      qed
    qed
  next
    case (Update h' u)
    with Cons.prems have u: "groq_isKeyUpdate u" by (simp add: groq_checkerCalls_def)
    show ?thesis
    proof (cases "groq_update h' u (snd c) q")
      case (Inl e)
      with Update Cons.prems(1) have "Inr k \<in> set (fst (groq_run gf cs q))" by simp
      then show ?thesis by (rule step) simp_all
    next
      case (Inr q1)
      with Update Cons.prems(1) have "Inr k \<in> set (fst (groq_run gf cs q1))" by simp
      then show ?thesis
        by (rule step) (simp_all add: groq_update_keeps [OF u Inr])
    qed
  qed
qed

lemma groq_compare_strict: "groq_compare a b < 0 \<Longrightarrow> \<not> groq_compare b a \<le> 0"
  by (auto simp: groq_compare_def Let_def split: if_splits)

lemma groq_selected_first:
  assumes "i \<in> set (groq_availableKeys fam now q)"
    and "\<And>j. j \<in> set (groq_availableKeys fam now q) \<Longrightarrow> j \<noteq> i
            \<Longrightarrow> groq_compare (q ! i) (q ! j) < 0"
  shows "groq_selected fam now q = i"
proof (rule ccontr)
  let ?s = "groq_selected fam now q"
  assume ne: "?s \<noteq> i"
  from assms(1) have "groq_availableKeys fam now q \<noteq> []" by auto
  then have "?s \<in> set (groq_availableKeys fam now q)" by (rule groq_selected_available)
  then have "groq_compare (q ! i) (q ! ?s) < 0" using ne by (rule assms(2))
  then have "\<not> groq_compare (q ! ?s) (q ! i) \<le> 0" by (rule groq_compare_strict)
  moreover have "groq_compare (q ! ?s) (q ! i) \<le> 0" using assms(1) by (rule groq_selected_least)
  ultimately show False by simp
qed

text \<open>
  C5. In a Groq pool with distinct hashes, let \<open>h\<close> be the hash of the record at position
  \<open>i\<close>. \<^verbatim>\<open>markRateLimited(h)\<close> at time \<open>t0\<close> returns, with \<^verbatim>\<open>rateLimitedUntil\<close> of that record set
  to \<open>t0\<close> plus the lockout. From then on, whatever \<^verbatim>\<open>get\<close> calls and checker updates follow,
  among them a probe that finds the key active again inside the window:
  \<^item> in a run whose calls all come before that instant, no \<^verbatim>\<open>get\<close> returns a credential with
    hash \<open>h\<close>;
  \<^item> after any run, the record is not among the candidates of a \<^verbatim>\<open>get\<close> at a time before
    that instant, for any family;
  \<^item> after any run, a \<^verbatim>\<open>get\<close> at or after that instant returns the stamped copy of the record
    with hash \<open>h\<close>, provided the record is otherwise healthy (not disabled, status of nonzero
    priority, not over quota, entitled to the family) and ranks before every other
    candidate.
\<close>

theorem rate_limited_excluded_until_elapsed:
  assumes d: "distinct (map hash keys)" and f: "findByHash h keys = Some i"
  shows "\<exists>keys'. groq_markRateLimited h t0 keys = Inr keys' \<and>
           rateLimitedUntil (keys' ! i) = t0 + groq_RATE_LIMIT_LOCKOUT \<and>
           (\<forall>gf calls k.
              groq_checkerCalls calls \<and>
              list_all (\<lambda>c. snd c < t0 + groq_RATE_LIMIT_LOCKOUT) calls \<and>
              Inr k \<in> set (fst (groq_run gf calls keys'))
              \<longrightarrow> hash k \<noteq> h) \<and>
           (\<forall>gf calls now fam.
              groq_checkerCalls calls \<and> now < t0 + groq_RATE_LIMIT_LOCKOUT
              \<longrightarrow> i \<notin> set (groq_availableKeys fam now (snd (groq_run gf calls keys')))) \<and>
           (\<forall>gf calls q m now.
              groq_checkerCalls calls \<and> q = snd (groq_run gf calls keys') \<and>
              t0 + groq_RATE_LIMIT_LOCKOUT \<le> now \<and>
              \<not> isDisabled (q ! i) \<and> groq_STATUS_PRIORITY (status (q ! i)) \<noteq> 0 \<and>
              \<not> isOverQuota (q ! i) \<and> gf m \<in> set (modelFamilies (q ! i)) \<and>
              (\<forall>j<length q. j \<noteq> i \<and> groq_isAvailable (gf m) now (q ! j)
                  \<longrightarrow> groq_compare (q ! i) (q ! j) < 0)
              \<longrightarrow> hash (q ! i) = h \<and>
                  groq_get gf m now q =
                    Inr ((q ! i)\<lparr>lastUsed := now\<rparr>, q[i := (q ! i)\<lparr>lastUsed := now\<rparr>]))"
proof -
  let ?L = "t0 + groq_RATE_LIMIT_LOCKOUT"
  let ?k = "(keys ! i)
                  \<lparr> rateLimitedAt := t0, rateLimitedUntil := ?L,
                    lastChecked := t0, status := RATE_LIMITED,
                    info := ''Rate limited by proxy'', isOverQuota := True,
                    isDisabled := (if status (keys ! i) = DEAD \<or> status (keys ! i) = INVALID
                                   then False else isDisabled (keys ! i)),
                    isRevoked := (if status (keys ! i) = DEAD \<or> status (keys ! i) = INVALID
                                  then False else isRevoked (keys ! i)) \<rparr>"
  let ?keys' = "keys[i := ?k]"
  from f have i: "i < length keys" and hi: "hash (keys ! i) = h"
    by (simp_all add: findByHash_Some)
  have m: "groq_markRateLimited h t0 keys = Inr ?keys'"
    using f by (rule groq_markRateLimited_found)
  have u: "rateLimitedUntil (?keys' ! i) = ?L" using i by simp
  have hk: "hash ?k = hash (keys ! i)" by simp
  have mh: "map hash ?keys' = map hash keys" using i hk by (rule map_hash_write)
  have d': "distinct (map hash ?keys')" using d mh by simp
  have i': "i < length ?keys'" using i by simp
  have h': "hash (?keys' ! i) = h" using i hi by simp
  have a: "hash k \<noteq> h"
    if "groq_checkerCalls calls" and "list_all (\<lambda>c. snd c < ?L) calls"
      and "Inr k \<in> set (fst (groq_run gf calls ?keys'))" for gf calls k
  proof (rule groq_run_locked_out [OF d' i' h' _ that(1) that(3)])
    show "list_all (\<lambda>c. snd c < rateLimitedUntil (?keys' ! i)) calls"
      using that(2) u by simp
  qed
  have inv: "map hash (snd (groq_run gf calls ?keys')) = map hash ?keys' \<and>
             rateLimitedUntil (snd (groq_run gf calls ?keys') ! i) = ?L"
    if "groq_checkerCalls calls" for gf calls
    using groq_run_keeps [OF that, of gf ?keys' i] u by simp
  have b: "i \<notin> set (groq_availableKeys fam now (snd (groq_run gf calls ?keys')))"
    if "groq_checkerCalls calls" and "now < ?L" for gf calls now fam
    by (rule groq_locked_out) (simp add: inv [OF that(1)] that(2))
  have c: "hash (q ! i) = h \<and>
           groq_get gf m now q = Inr ((q ! i)\<lparr>lastUsed := now\<rparr>, q[i := (q ! i)\<lparr>lastUsed := now\<rparr>])"
    if cc: "groq_checkerCalls calls" and q: "q = snd (groq_run gf calls ?keys')"
      and el: "?L \<le> now"
      and healthy: "\<not> isDisabled (q ! i)" "groq_STATUS_PRIORITY (status (q ! i)) \<noteq> 0"
        "\<not> isOverQuota (q ! i)" "gf m \<in> set (modelFamilies (q ! i))"
      and best: "\<forall>j<length q. j \<noteq> i \<and> groq_isAvailable (gf m) now (q ! j)
                  \<longrightarrow> groq_compare (q ! i) (q ! j) < 0"
    for gf calls q m now
  proof
    from inv [OF cc, of gf] q have mq: "map hash q = map hash ?keys'"
      and rq: "rateLimitedUntil (q ! i) = ?L" by simp_all
    from mq have len: "length q = length ?keys'" by (metis length_map)
    with i' have iq: "i < length q" by simp
    have "map hash q ! i = map hash ?keys' ! i" using mq by simp
    then show "hash (q ! i) = h" using iq i' h' by simp
    have av: "i \<in> set (groq_availableKeys (gf m) now q)"
      using iq el rq healthy by (simp add: groq_availableKeys_iff groq_isAvailable_def)
    have sel: "groq_selected (gf m) now q = i"
      using av
    proof (rule groq_selected_first)
      fix j assume "j \<in> set (groq_availableKeys (gf m) now q)" and "j \<noteq> i"
      then show "groq_compare (q ! i) (q ! j) < 0"
        using best by (simp add: groq_availableKeys_iff)
    qed
    from av have "groq_availableKeys (gf m) now q \<noteq> []" by auto
    then show "groq_get gf m now q =
        Inr ((q ! i)\<lparr>lastUsed := now\<rparr>, q[i := (q ! i)\<lparr>lastUsed := now\<rparr>])"
      by (simp add: groq_get_unfold sel)
  qed
  from m u a b c show ?thesis by blast
qed

lemma groq_lockout_example_mark:
  "groq_markRateLimited ''groq-0000000a'' 1000 [(groq_newKey ''gsk-a'' ''groq-0000000a'')\<lparr>status := ACTIVE\<rparr>,
      (groq_newKey ''gsk-b'' ''groq-0000000b'')\<lparr>status := ACTIVE\<rparr>] =
   Inr [(groq_newKey ''gsk-a'' ''groq-0000000a'')\<lparr>status := RATE_LIMITED, rateLimitedAt := 1000, rateLimitedUntil := 61000, lastChecked := 1000, info := ''Rate limited by proxy'', isOverQuota := True\<rparr>,
      (groq_newKey ''gsk-b'' ''groq-0000000b'')\<lparr>status := ACTIVE\<rparr>]"
  by (simp add: groq_markRateLimited_def groq_RATE_LIMIT_LOCKOUT_def groq_get_def groq_update_def groq_availableKeys_def groq_isAvailable_def groq_compare_def groq_newKey_def groq_assign_def assignKey_def orElse_def groq_deriveFlags_def groq_noUpdate_def findByHash_def Let_def)

lemma groq_lockout_example_probe:
  "groq_update ''groq-0000000a'' (groq_noUpdate\<lparr>status' := Some ACTIVE, info' := Some ''Valid key with access to 20 models'', rateLimitInfo' := Some None\<rparr>) 2000
      [(groq_newKey ''gsk-a'' ''groq-0000000a'')\<lparr>status := RATE_LIMITED, rateLimitedAt := 1000, rateLimitedUntil := 61000, lastChecked := 1000, info := ''Rate limited by proxy'', isOverQuota := True\<rparr>,
      (groq_newKey ''gsk-b'' ''groq-0000000b'')\<lparr>status := ACTIVE\<rparr>] =
   Inr [(groq_newKey ''gsk-a'' ''groq-0000000a'')\<lparr>status := ACTIVE, rateLimitedAt := 1000, rateLimitedUntil := 61000, lastChecked := 2000, info := ''Valid key with access to 20 models''\<rparr>,
      (groq_newKey ''gsk-b'' ''groq-0000000b'')\<lparr>status := ACTIVE\<rparr>]"
  by (simp add: groq_update_def groq_newKey_def groq_assign_def assignKey_def orElse_def
        groq_deriveFlags_def groq_noUpdate_def findByHash_def Let_def)

lemma groq_lockout_example_get1:
  "groq_get (\<lambda>m. ''groq-kimi'') ''kimi-k2'' 3000
      [(groq_newKey ''gsk-a'' ''groq-0000000a'')\<lparr>status := ACTIVE, rateLimitedAt := 1000, rateLimitedUntil := 61000, lastChecked := 2000, info := ''Valid key with access to 20 models''\<rparr>,
      (groq_newKey ''gsk-b'' ''groq-0000000b'')\<lparr>status := ACTIVE\<rparr>] =
   Inr ((groq_newKey ''gsk-b'' ''groq-0000000b'')\<lparr>status := ACTIVE, lastUsed := 3000\<rparr>,
      [(groq_newKey ''gsk-a'' ''groq-0000000a'')\<lparr>status := ACTIVE, rateLimitedAt := 1000, rateLimitedUntil := 61000, lastChecked := 2000, info := ''Valid key with access to 20 models''\<rparr>,
      (groq_newKey ''gsk-b'' ''groq-0000000b'')\<lparr>status := ACTIVE, lastUsed := 3000\<rparr>])"
  by (simp add: groq_get_def groq_availableKeys_def groq_isAvailable_def groq_newKey_def Let_def)

lemma groq_lockout_example_get2:
  "groq_get (\<lambda>m. ''groq-kimi'') ''kimi-k2'' 60999
      [(groq_newKey ''gsk-a'' ''groq-0000000a'')\<lparr>status := ACTIVE, rateLimitedAt := 1000, rateLimitedUntil := 61000, lastChecked := 2000, info := ''Valid key with access to 20 models''\<rparr>,
      (groq_newKey ''gsk-b'' ''groq-0000000b'')\<lparr>status := ACTIVE, lastUsed := 3000\<rparr>] =
   Inr ((groq_newKey ''gsk-b'' ''groq-0000000b'')\<lparr>status := ACTIVE, lastUsed := 60999\<rparr>,
      [(groq_newKey ''gsk-a'' ''groq-0000000a'')\<lparr>status := ACTIVE, rateLimitedAt := 1000, rateLimitedUntil := 61000, lastChecked := 2000, info := ''Valid key with access to 20 models''\<rparr>,
      (groq_newKey ''gsk-b'' ''groq-0000000b'')\<lparr>status := ACTIVE, lastUsed := 60999\<rparr>])"
  by (simp add: groq_get_def groq_availableKeys_def groq_isAvailable_def groq_newKey_def Let_def)

lemma groq_lockout_example_run:
  "groq_run (\<lambda>m. ''groq-kimi'') [(Update ''groq-0000000a'' (groq_noUpdate\<lparr>status' := Some ACTIVE, info' := Some ''Valid key with access to 20 models'', rateLimitInfo' := Some None\<rparr>), 2000),
       (Get ''kimi-k2'', 3000), (Get ''kimi-k2'', 60999)]
      [(groq_newKey ''gsk-a'' ''groq-0000000a'')\<lparr>status := RATE_LIMITED, rateLimitedAt := 1000, rateLimitedUntil := 61000, lastChecked := 1000, info := ''Rate limited by proxy'', isOverQuota := True\<rparr>,
      (groq_newKey ''gsk-b'' ''groq-0000000b'')\<lparr>status := ACTIVE\<rparr>] =
   ([Inr ((groq_newKey ''gsk-b'' ''groq-0000000b'')\<lparr>status := ACTIVE, lastUsed := 3000\<rparr>), Inr ((groq_newKey ''gsk-b'' ''groq-0000000b'')\<lparr>status := ACTIVE, lastUsed := 60999\<rparr>)],
    [(groq_newKey ''gsk-a'' ''groq-0000000a'')\<lparr>status := ACTIVE, rateLimitedAt := 1000, rateLimitedUntil := 61000, lastChecked := 2000, info := ''Valid key with access to 20 models''\<rparr>,
      (groq_newKey ''gsk-b'' ''groq-0000000b'')\<lparr>status := ACTIVE, lastUsed := 60999\<rparr>])"
  by (simp add: groq_lockout_example_probe groq_lockout_example_get1 groq_lockout_example_get2)

text \<open>
  The theorem at a pool of two active keys, the first marked at time 1000 and probed active
  again at 2000: the calls at 3000 and 60999 return the second key, the first is no
  candidate at 60999, and the call at 61000 returns the first.
\<close>

theorem rate_limited_excluded_until_elapsed_witness:
  "distinct (map hash [(groq_newKey ''gsk-a'' ''groq-0000000a'')\<lparr>status := ACTIVE\<rparr>,
      (groq_newKey ''gsk-b'' ''groq-0000000b'')\<lparr>status := ACTIVE\<rparr>]) \<and>
   findByHash ''groq-0000000a'' [(groq_newKey ''gsk-a'' ''groq-0000000a'')\<lparr>status := ACTIVE\<rparr>,
      (groq_newKey ''gsk-b'' ''groq-0000000b'')\<lparr>status := ACTIVE\<rparr>] = Some 0 \<and>
   (\<exists>keys'. groq_markRateLimited ''groq-0000000a'' 1000 [(groq_newKey ''gsk-a'' ''groq-0000000a'')\<lparr>status := ACTIVE\<rparr>,
      (groq_newKey ''gsk-b'' ''groq-0000000b'')\<lparr>status := ACTIVE\<rparr>] = Inr keys' \<and>
      groq_run (\<lambda>m. ''groq-kimi'') [(Update ''groq-0000000a'' (groq_noUpdate\<lparr>status' := Some ACTIVE, info' := Some ''Valid key with access to 20 models'', rateLimitInfo' := Some None\<rparr>), 2000),
       (Get ''kimi-k2'', 3000), (Get ''kimi-k2'', 60999)] keys' =
        ([Inr ((groq_newKey ''gsk-b'' ''groq-0000000b'')\<lparr>status := ACTIVE, lastUsed := 3000\<rparr>), Inr ((groq_newKey ''gsk-b'' ''groq-0000000b'')\<lparr>status := ACTIVE, lastUsed := 60999\<rparr>)],
         [(groq_newKey ''gsk-a'' ''groq-0000000a'')\<lparr>status := ACTIVE, rateLimitedAt := 1000, rateLimitedUntil := 61000, lastChecked := 2000, info := ''Valid key with access to 20 models''\<rparr>,
      (groq_newKey ''gsk-b'' ''groq-0000000b'')\<lparr>status := ACTIVE, lastUsed := 60999\<rparr>]) \<and>
      (\<forall>k. Inr k \<in> set (fst (groq_run (\<lambda>m. ''groq-kimi'') [(Update ''groq-0000000a'' (groq_noUpdate\<lparr>status' := Some ACTIVE, info' := Some ''Valid key with access to 20 models'', rateLimitInfo' := Some None\<rparr>), 2000),
       (Get ''kimi-k2'', 3000), (Get ''kimi-k2'', 60999)] keys'))
           \<longrightarrow> hash k \<noteq> ''groq-0000000a'') \<and>
      0 \<notin> set (groq_availableKeys ''groq-kimi'' 60999
             (snd (groq_run (\<lambda>m. ''groq-kimi'') [(Update ''groq-0000000a'' (groq_noUpdate\<lparr>status' := Some ACTIVE, info' := Some ''Valid key with access to 20 models'', rateLimitInfo' := Some None\<rparr>), 2000),
       (Get ''kimi-k2'', 3000), (Get ''kimi-k2'', 60999)] keys'))) \<and>
      groq_get (\<lambda>m. ''groq-kimi'') ''kimi-k2'' 61000 (snd (groq_run (\<lambda>m. ''groq-kimi'') [(Update ''groq-0000000a'' (groq_noUpdate\<lparr>status' := Some ACTIVE, info' := Some ''Valid key with access to 20 models'', rateLimitInfo' := Some None\<rparr>), 2000),
       (Get ''kimi-k2'', 3000), (Get ''kimi-k2'', 60999)] keys')) =
        Inr ((groq_newKey ''gsk-a'' ''groq-0000000a'')\<lparr>status := ACTIVE, rateLimitedAt := 1000, rateLimitedUntil := 61000, lastChecked := 2000, info := ''Valid key with access to 20 models'', lastUsed := 61000\<rparr>,
          [(groq_newKey ''gsk-a'' ''groq-0000000a'')\<lparr>status := ACTIVE, rateLimitedAt := 1000, rateLimitedUntil := 61000, lastChecked := 2000, info := ''Valid key with access to 20 models'', lastUsed := 61000\<rparr>,
           (groq_newKey ''gsk-b'' ''groq-0000000b'')\<lparr>status := ACTIVE, lastUsed := 60999\<rparr>]))"
proof -
  let ?calls = "[(Update ''groq-0000000a'' (groq_noUpdate\<lparr>status' := Some ACTIVE, info' := Some ''Valid key with access to 20 models'', rateLimitInfo' := Some None\<rparr>), 2000),
       (Get ''kimi-k2'', 3000), (Get ''kimi-k2'', 60999)]"
  let ?gf = "(\<lambda>m. ''groq-kimi'')"
  have d: "distinct (map hash [(groq_newKey ''gsk-a'' ''groq-0000000a'')\<lparr>status := ACTIVE\<rparr>,
      (groq_newKey ''gsk-b'' ''groq-0000000b'')\<lparr>status := ACTIVE\<rparr>])"
    by (simp add: groq_newKey_def)
  have f: "findByHash ''groq-0000000a'' [(groq_newKey ''gsk-a'' ''groq-0000000a'')\<lparr>status := ACTIVE\<rparr>,
      (groq_newKey ''gsk-b'' ''groq-0000000b'')\<lparr>status := ACTIVE\<rparr>] = Some 0"
    by (simp add: findByHash_def groq_newKey_def)
  have cc: "groq_checkerCalls ?calls"
    by (simp add: groq_checkerCalls_def groq_isKeyUpdate_def groq_noUpdate_def)
  have before: "list_all (\<lambda>c. snd c < 1000 + groq_RATE_LIMIT_LOCKOUT) ?calls"
    by (simp add: groq_RATE_LIMIT_LOCKOUT_def)
  from rate_limited_excluded_until_elapsed [OF d f, of 1000]
  obtain keys' where m: "groq_markRateLimited ''groq-0000000a'' 1000 [(groq_newKey ''gsk-a'' ''groq-0000000a'')\<lparr>status := ACTIVE\<rparr>,
      (groq_newKey ''gsk-b'' ''groq-0000000b'')\<lparr>status := ACTIVE\<rparr>] = Inr keys'"
    and a: "\<forall>gf calls k.
              groq_checkerCalls calls \<and>
              list_all (\<lambda>c. snd c < 1000 + groq_RATE_LIMIT_LOCKOUT) calls \<and>
              Inr k \<in> set (fst (groq_run gf calls keys'))
              \<longrightarrow> hash k \<noteq> ''groq-0000000a''"
    and b: "\<forall>gf calls now fam.
              groq_checkerCalls calls \<and> now < 1000 + groq_RATE_LIMIT_LOCKOUT
              \<longrightarrow> 0 \<notin> set (groq_availableKeys fam now (snd (groq_run gf calls keys')))"
    and c: "\<forall>gf calls q m now.
              groq_checkerCalls calls \<and> q = snd (groq_run gf calls keys') \<and>
              1000 + groq_RATE_LIMIT_LOCKOUT \<le> now \<and>
              \<not> isDisabled (q ! 0) \<and> groq_STATUS_PRIORITY (status (q ! 0)) \<noteq> 0 \<and>
              \<not> isOverQuota (q ! 0) \<and> gf m \<in> set (modelFamilies (q ! 0)) \<and>
              (\<forall>j<length q. j \<noteq> 0 \<and> groq_isAvailable (gf m) now (q ! j)
                  \<longrightarrow> groq_compare (q ! 0) (q ! j) < 0)
              \<longrightarrow> hash (q ! 0) = ''groq-0000000a'' \<and>
                  groq_get gf m now q =
                    Inr ((q ! 0)\<lparr>lastUsed := now\<rparr>, q[0 := (q ! 0)\<lparr>lastUsed := now\<rparr>])"
    by blast
  let ?q = "[(groq_newKey ''gsk-a'' ''groq-0000000a'')\<lparr>status := ACTIVE, rateLimitedAt := 1000, rateLimitedUntil := 61000, lastChecked := 2000, info := ''Valid key with access to 20 models''\<rparr>,
      (groq_newKey ''gsk-b'' ''groq-0000000b'')\<lparr>status := ACTIVE, lastUsed := 60999\<rparr>]"
  from m have k: "keys' = [(groq_newKey ''gsk-a'' ''groq-0000000a'')\<lparr>status := RATE_LIMITED, rateLimitedAt := 1000, rateLimitedUntil := 61000, lastChecked := 1000, info := ''Rate limited by proxy'', isOverQuota := True\<rparr>,
      (groq_newKey ''gsk-b'' ''groq-0000000b'')\<lparr>status := ACTIVE\<rparr>]"
    unfolding groq_lockout_example_mark by auto
  have run: "groq_run ?gf ?calls keys' =
        ([Inr ((groq_newKey ''gsk-b'' ''groq-0000000b'')\<lparr>status := ACTIVE, lastUsed := 3000\<rparr>), Inr ((groq_newKey ''gsk-b'' ''groq-0000000b'')\<lparr>status := ACTIVE, lastUsed := 60999\<rparr>)], ?q)"
    unfolding k by (rule groq_lockout_example_run)
  then have q: "?q = snd (groq_run ?gf ?calls keys')" by simp
  have a': "\<forall>k. Inr k \<in> set (fst (groq_run ?gf ?calls keys')) \<longrightarrow> hash k \<noteq> ''groq-0000000a''"
    using a cc before by blast
  have "1000 + groq_RATE_LIMIT_LOCKOUT = 61000" by (simp add: groq_RATE_LIMIT_LOCKOUT_def)
  then have "(60999::int) < 1000 + groq_RATE_LIMIT_LOCKOUT"
    and el: "1000 + groq_RATE_LIMIT_LOCKOUT \<le> (61000::int)" by simp_all
  with b cc have b': "0 \<notin> set (groq_availableKeys ''groq-kimi'' 60999
             (snd (groq_run ?gf ?calls keys')))"
    by blast
  have healthy: "\<not> isDisabled (?q ! 0)" "groq_STATUS_PRIORITY (status (?q ! 0)) \<noteq> 0"
    "\<not> isOverQuota (?q ! 0)" "?gf ''kimi-k2'' \<in> set (modelFamilies (?q ! 0))"
    by (simp_all add: groq_newKey_def)
  have best: "\<forall>j<length ?q. j \<noteq> 0 \<and> groq_isAvailable (?gf ''kimi-k2'') 61000 (?q ! j)
                  \<longrightarrow> groq_compare (?q ! 0) (?q ! j) < 0"
    by (simp add: less_Suc_eq groq_compare_def groq_newKey_def)
  from c cc q el healthy best
  have "groq_get ?gf ''kimi-k2'' 61000 ?q =
          Inr ((?q ! 0)\<lparr>lastUsed := 61000\<rparr>, ?q[0 := (?q ! 0)\<lparr>lastUsed := 61000\<rparr>])"
    by blast
  then have c': "groq_get ?gf ''kimi-k2'' 61000 (snd (groq_run ?gf ?calls keys')) =
        Inr ((groq_newKey ''gsk-a'' ''groq-0000000a'')\<lparr>status := ACTIVE, rateLimitedAt := 1000, rateLimitedUntil := 61000, lastChecked := 2000, info := ''Valid key with access to 20 models'', lastUsed := 61000\<rparr>,
          [(groq_newKey ''gsk-a'' ''groq-0000000a'')\<lparr>status := ACTIVE, rateLimitedAt := 1000, rateLimitedUntil := 61000, lastChecked := 2000, info := ''Valid key with access to 20 models'', lastUsed := 61000\<rparr>,
           (groq_newKey ''gsk-b'' ''groq-0000000b'')\<lparr>status := ACTIVE, lastUsed := 60999\<rparr>])"
    unfolding q [symmetric] by simp
  from d f m run a' b' c' show ?thesis by blast
qed

section \<open>C6: the tiers of OpenRouter\<close>






section \<open>C7: least recently used\<close>

text \<open>
  The claim of C7 as it is written fails on the OpenRouter provider, whose comparator looks
  at the remaining balance before \<^verbatim>\<open>lastUsed\<close>: of two candidates with the same status priority
  \<^verbatim>\<open>get\<close> returns the one with the larger balance, here the one used more recently.
\<close>

theorem openrouter_lru_counterexample:
  "openrouter_get (\<lambda>m. ''openrouter-paid'') ''vendor/model'' 1000
     [(openrouter_newKey ''sk-or-a'' ''or-0000000a'')
        \<lparr>status := PAID_Balance, isPaid := True, remainingBalance := Some 5, lastUsed := 10\<rparr>,
      (openrouter_newKey ''sk-or-b'' ''or-0000000b'')
        \<lparr>status := PAID_Balance, isPaid := True, remainingBalance := Some 10, lastUsed := 100\<rparr>] =
   Inr ((openrouter_newKey ''sk-or-b'' ''or-0000000b'')
          \<lparr>status := PAID_Balance, isPaid := True, remainingBalance := Some 10, lastUsed := 1000\<rparr>,
        [(openrouter_newKey ''sk-or-a'' ''or-0000000a'')
           \<lparr>status := PAID_Balance, isPaid := True, remainingBalance := Some 5, lastUsed := 10\<rparr>,
         (openrouter_newKey ''sk-or-b'' ''or-0000000b'')
           \<lparr>status := PAID_Balance, isPaid := True, remainingBalance := Some 10, lastUsed := 1000\<rparr>]) \<and>
   openrouter_availableKeys ''openrouter-paid'' 1000
     [(openrouter_newKey ''sk-or-a'' ''or-0000000a'')
        \<lparr>status := PAID_Balance, isPaid := True, remainingBalance := Some 5, lastUsed := 10\<rparr>,
      (openrouter_newKey ''sk-or-b'' ''or-0000000b'')
        \<lparr>status := PAID_Balance, isPaid := True, remainingBalance := Some 10, lastUsed := 100\<rparr>] =
   [0, 1] \<and>
   lastUsed ((openrouter_newKey ''sk-or-a'' ''or-0000000a'')
        \<lparr>status := PAID_Balance, isPaid := True, remainingBalance := Some 5, lastUsed := 10\<rparr>) <
   lastUsed ((openrouter_newKey ''sk-or-b'' ''or-0000000b'')
        \<lparr>status := PAID_Balance, isPaid := True, remainingBalance := Some 10, lastUsed := 100\<rparr>)"
  by (simp add: openrouter_get_def openrouter_availableKeys_def openrouter_isAvailable_def
        openrouter_compare_def openrouter_newKey_def orElse_def Let_def)

text \<open>
  C7, amended. When \<^verbatim>\<open>get\<close> returns, the selected record is a candidate of the highest status
  priority among the candidates. In the Groq provider its \<^verbatim>\<open>lastUsed\<close> before the call is the
  smallest among the candidates of equal status priority. In the OpenRouter provider its
  \<^verbatim>\<open>remainingBalance || 0\<close> is the largest among the candidates of equal status priority, and
  its \<^verbatim>\<open>lastUsed\<close> before the call is the smallest among the candidates of equal status
  priority and equal \<^verbatim>\<open>remainingBalance || 0\<close>. Immediately after the call the selected
  record's \<^verbatim>\<open>lastUsed\<close> in the pool is the time of the call.
\<close>

theorem get_selects_least_recently_used:
  "(groq_get gf gm gnow gkeys = Inr (gk, gkeys') \<longrightarrow>
      (\<exists>i<length gkeys.
          groq_isAvailable (gf gm) gnow (gkeys ! i) \<and>
          gk = (gkeys ! i)\<lparr>lastUsed := gnow\<rparr> \<and> gkeys' = gkeys[i := gk] \<and>
          lastUsed (gkeys' ! i) = gnow \<and>
          (\<forall>j<length gkeys.
              groq_isAvailable (gf gm) gnow (gkeys ! j) \<longrightarrow>
              groq_STATUS_PRIORITY (status (gkeys ! j)) \<le> groq_STATUS_PRIORITY (status (gkeys ! i)) \<and>
              (groq_STATUS_PRIORITY (status (gkeys ! j)) = groq_STATUS_PRIORITY (status (gkeys ! i))
                 \<longrightarrow> lastUsed (gkeys ! i) \<le> lastUsed (gkeys ! j))))) \<and>
   (openrouter_get rf rm rnow rkeys = Inr (rk, rkeys') \<longrightarrow>
      (\<exists>i<length rkeys.
          openrouter_isAvailable (rf rm) rnow (rkeys ! i) \<and>
          rk = (rkeys ! i)\<lparr>lastUsed := rnow\<rparr> \<and> rkeys' = rkeys[i := rk] \<and>
          lastUsed (rkeys' ! i) = rnow \<and>
          (\<forall>j<length rkeys.
              openrouter_isAvailable (rf rm) rnow (rkeys ! j) \<longrightarrow>
              openrouter_STATUS_PRIORITY (status (rkeys ! j))
                \<le> openrouter_STATUS_PRIORITY (status (rkeys ! i)) \<and>
              (openrouter_STATUS_PRIORITY (status (rkeys ! j))
                 = openrouter_STATUS_PRIORITY (status (rkeys ! i))
                 \<longrightarrow> orElse (remainingBalance (rkeys ! j)) 0 \<le> orElse (remainingBalance (rkeys ! i)) 0) \<and>
              (openrouter_STATUS_PRIORITY (status (rkeys ! j))
                 = openrouter_STATUS_PRIORITY (status (rkeys ! i)) \<and>
               orElse (remainingBalance (rkeys ! j)) 0 = orElse (remainingBalance (rkeys ! i)) 0
                 \<longrightarrow> lastUsed (rkeys ! i) \<le> lastUsed (rkeys ! j)))))"
proof (intro conjI impI)
  assume g: "groq_get gf gm gnow gkeys = Inr (gk, gkeys')"
  let ?i = "groq_selected (gf gm) gnow gkeys"
  from g have "?i \<in> set (groq_availableKeys (gf gm) gnow gkeys)"
    by (intro groq_selected_available groq_get_Inr(1))
  then have i: "?i < length gkeys" and av: "groq_isAvailable (gf gm) gnow (gkeys ! ?i)"
    by (simp_all add: groq_availableKeys_iff)
  have k: "gk = (gkeys ! ?i)\<lparr>lastUsed := gnow\<rparr>" using g by (rule groq_get_Inr(2))
  have p: "gkeys' = gkeys[?i := gk]" using g by (rule groq_get_Inr(3))
  have stamp: "lastUsed (gkeys' ! ?i) = gnow" using i by (simp add: p k)
  have least: "(\<forall>j<length gkeys.
              groq_isAvailable (gf gm) gnow (gkeys ! j) \<longrightarrow>
              groq_STATUS_PRIORITY (status (gkeys ! j)) \<le> groq_STATUS_PRIORITY (status (gkeys ! ?i)) \<and>
              (groq_STATUS_PRIORITY (status (gkeys ! j)) = groq_STATUS_PRIORITY (status (gkeys ! ?i))
                 \<longrightarrow> lastUsed (gkeys ! ?i) \<le> lastUsed (gkeys ! j)))"
  proof (intro allI impI)
    fix j assume "j < length gkeys" and "groq_isAvailable (gf gm) gnow (gkeys ! j)"
    then have "j \<in> set (groq_availableKeys (gf gm) gnow gkeys)"
      by (simp add: groq_availableKeys_iff)
    then have "groq_compare (gkeys ! ?i) (gkeys ! j) \<le> 0" by (rule groq_selected_least)
    then show "groq_STATUS_PRIORITY (status (gkeys ! j)) \<le> groq_STATUS_PRIORITY (status (gkeys ! ?i)) \<and>
              (groq_STATUS_PRIORITY (status (gkeys ! j)) = groq_STATUS_PRIORITY (status (gkeys ! ?i))
                 \<longrightarrow> lastUsed (gkeys ! ?i) \<le> lastUsed (gkeys ! j))"
      unfolding groq_compare_le_iff by auto
  qed
  from i av k p stamp least
  show "(\<exists>i<length gkeys.
          groq_isAvailable (gf gm) gnow (gkeys ! i) \<and>
          gk = (gkeys ! i)\<lparr>lastUsed := gnow\<rparr> \<and> gkeys' = gkeys[i := gk] \<and>
          lastUsed (gkeys' ! i) = gnow \<and>
          (\<forall>j<length gkeys.
              groq_isAvailable (gf gm) gnow (gkeys ! j) \<longrightarrow>
              groq_STATUS_PRIORITY (status (gkeys ! j)) \<le> groq_STATUS_PRIORITY (status (gkeys ! i)) \<and>
              (groq_STATUS_PRIORITY (status (gkeys ! j)) = groq_STATUS_PRIORITY (status (gkeys ! i))
                 \<longrightarrow> lastUsed (gkeys ! i) \<le> lastUsed (gkeys ! j))))"
    by blast
next
  assume g: "openrouter_get rf rm rnow rkeys = Inr (rk, rkeys')"
  let ?i = "openrouter_selected (rf rm) rnow rkeys"
  from g have "?i \<in> set (openrouter_availableKeys (rf rm) rnow rkeys)"
    by (intro openrouter_selected_available openrouter_get_Inr(1))
  then have i: "?i < length rkeys" and av: "openrouter_isAvailable (rf rm) rnow (rkeys ! ?i)"
    by (simp_all add: openrouter_availableKeys_iff)
  have k: "rk = (rkeys ! ?i)\<lparr>lastUsed := rnow\<rparr>" using g by (rule openrouter_get_Inr(2))
  have p: "rkeys' = rkeys[?i := rk]" using g by (rule openrouter_get_Inr(3))
  have stamp: "lastUsed (rkeys' ! ?i) = rnow" using i by (simp add: p k)
  have least: "(\<forall>j<length rkeys.
              openrouter_isAvailable (rf rm) rnow (rkeys ! j) \<longrightarrow>
              openrouter_STATUS_PRIORITY (status (rkeys ! j))
                \<le> openrouter_STATUS_PRIORITY (status (rkeys ! ?i)) \<and>
              (openrouter_STATUS_PRIORITY (status (rkeys ! j))
                 = openrouter_STATUS_PRIORITY (status (rkeys ! ?i))
                 \<longrightarrow> orElse (remainingBalance (rkeys ! j)) 0 \<le> orElse (remainingBalance (rkeys ! ?i)) 0) \<and>
              (openrouter_STATUS_PRIORITY (status (rkeys ! j))
                 = openrouter_STATUS_PRIORITY (status (rkeys ! ?i)) \<and>
               orElse (remainingBalance (rkeys ! j)) 0 = orElse (remainingBalance (rkeys ! ?i)) 0
                 \<longrightarrow> lastUsed (rkeys ! ?i) \<le> lastUsed (rkeys ! j)))"
  proof (intro allI impI)
    fix j assume "j < length rkeys" and "openrouter_isAvailable (rf rm) rnow (rkeys ! j)"
    then have "j \<in> set (openrouter_availableKeys (rf rm) rnow rkeys)"
      by (simp add: openrouter_availableKeys_iff)
    then have "openrouter_compare (rkeys ! ?i) (rkeys ! j) \<le> 0"
      by (rule openrouter_selected_least)
    then show "openrouter_STATUS_PRIORITY (status (rkeys ! j))
                \<le> openrouter_STATUS_PRIORITY (status (rkeys ! ?i)) \<and>
              (openrouter_STATUS_PRIORITY (status (rkeys ! j))
                 = openrouter_STATUS_PRIORITY (status (rkeys ! ?i))
                 \<longrightarrow> orElse (remainingBalance (rkeys ! j)) 0 \<le> orElse (remainingBalance (rkeys ! ?i)) 0) \<and>
              (openrouter_STATUS_PRIORITY (status (rkeys ! j))
                 = openrouter_STATUS_PRIORITY (status (rkeys ! ?i)) \<and>
               orElse (remainingBalance (rkeys ! j)) 0 = orElse (remainingBalance (rkeys ! ?i)) 0
                 \<longrightarrow> lastUsed (rkeys ! ?i) \<le> lastUsed (rkeys ! j))"
      unfolding openrouter_compare_le_iff by auto
  qed
  from i av k p stamp least
  show "(\<exists>i<length rkeys.
          openrouter_isAvailable (rf rm) rnow (rkeys ! i) \<and>
          rk = (rkeys ! i)\<lparr>lastUsed := rnow\<rparr> \<and> rkeys' = rkeys[i := rk] \<and>
          lastUsed (rkeys' ! i) = rnow \<and>
          (\<forall>j<length rkeys.
              openrouter_isAvailable (rf rm) rnow (rkeys ! j) \<longrightarrow>
              openrouter_STATUS_PRIORITY (status (rkeys ! j))
                \<le> openrouter_STATUS_PRIORITY (status (rkeys ! i)) \<and>
              (openrouter_STATUS_PRIORITY (status (rkeys ! j))
                 = openrouter_STATUS_PRIORITY (status (rkeys ! i))
                 \<longrightarrow> orElse (remainingBalance (rkeys ! j)) 0 \<le> orElse (remainingBalance (rkeys ! i)) 0) \<and>
              (openrouter_STATUS_PRIORITY (status (rkeys ! j))
                 = openrouter_STATUS_PRIORITY (status (rkeys ! i)) \<and>
               orElse (remainingBalance (rkeys ! j)) 0 = orElse (remainingBalance (rkeys ! i)) 0
                 \<longrightarrow> lastUsed (rkeys ! i) \<le> lastUsed (rkeys ! j))))"
    by blast
qed

lemma groq_get_lru_example:
  "groq_get (\<lambda>m. ''groq-kimi'') ''kimi-k2'' 1000
     [(groq_newKey ''gsk-a'' ''groq-0000000a'')\<lparr>status := ACTIVE, lastUsed := 50\<rparr>,
      (groq_newKey ''gsk-b'' ''groq-0000000b'')\<lparr>status := ACTIVE, lastUsed := 20\<rparr>] =
   Inr ((groq_newKey ''gsk-b'' ''groq-0000000b'')\<lparr>status := ACTIVE, lastUsed := 1000\<rparr>,
     [(groq_newKey ''gsk-a'' ''groq-0000000a'')\<lparr>status := ACTIVE, lastUsed := 50\<rparr>,
      (groq_newKey ''gsk-b'' ''groq-0000000b'')\<lparr>status := ACTIVE, lastUsed := 1000\<rparr>])"
  by (simp add: groq_get_def groq_availableKeys_def groq_isAvailable_def groq_compare_def
        groq_newKey_def Let_def)

lemma openrouter_get_balance_example:
  "openrouter_get (\<lambda>m. ''openrouter-paid'') ''vendor/model'' 1000
     [(openrouter_newKey ''sk-or-a'' ''or-0000000a'')\<lparr>status := PAID_Balance, isPaid := True, remainingBalance := Some 5, lastUsed := 10\<rparr>,
      (openrouter_newKey ''sk-or-b'' ''or-0000000b'')\<lparr>status := PAID_Balance, isPaid := True, remainingBalance := Some 10, lastUsed := 100\<rparr>] =
   Inr ((openrouter_newKey ''sk-or-b'' ''or-0000000b'')\<lparr>status := PAID_Balance, isPaid := True, remainingBalance := Some 10, lastUsed := 1000\<rparr>,
     [(openrouter_newKey ''sk-or-a'' ''or-0000000a'')\<lparr>status := PAID_Balance, isPaid := True, remainingBalance := Some 5, lastUsed := 10\<rparr>,
      (openrouter_newKey ''sk-or-b'' ''or-0000000b'')\<lparr>status := PAID_Balance, isPaid := True, remainingBalance := Some 10, lastUsed := 1000\<rparr>])"
  by (simp add: openrouter_get_def openrouter_availableKeys_def openrouter_isAvailable_def
        openrouter_compare_def openrouter_newKey_def orElse_def Let_def)

text \<open>
  The theorem at a Groq pool of two active keys, the second used less recently, and at the
  OpenRouter pool of the counterexample, where the larger balance decides.
\<close>

theorem get_selects_least_recently_used_witness:
  "groq_get (\<lambda>m. ''groq-kimi'') ''kimi-k2'' 1000
     [(groq_newKey ''gsk-a'' ''groq-0000000a'')\<lparr>status := ACTIVE, lastUsed := 50\<rparr>,
      (groq_newKey ''gsk-b'' ''groq-0000000b'')\<lparr>status := ACTIVE, lastUsed := 20\<rparr>] =
   Inr ((groq_newKey ''gsk-b'' ''groq-0000000b'')\<lparr>status := ACTIVE, lastUsed := 1000\<rparr>,
     [(groq_newKey ''gsk-a'' ''groq-0000000a'')\<lparr>status := ACTIVE, lastUsed := 50\<rparr>,
      (groq_newKey ''gsk-b'' ''groq-0000000b'')\<lparr>status := ACTIVE, lastUsed := 1000\<rparr>]) \<and>
   openrouter_get (\<lambda>m. ''openrouter-paid'') ''vendor/model'' 1000
     [(openrouter_newKey ''sk-or-a'' ''or-0000000a'')\<lparr>status := PAID_Balance, isPaid := True, remainingBalance := Some 5, lastUsed := 10\<rparr>,
      (openrouter_newKey ''sk-or-b'' ''or-0000000b'')\<lparr>status := PAID_Balance, isPaid := True, remainingBalance := Some 10, lastUsed := 100\<rparr>] =
   Inr ((openrouter_newKey ''sk-or-b'' ''or-0000000b'')\<lparr>status := PAID_Balance, isPaid := True, remainingBalance := Some 10, lastUsed := 1000\<rparr>,
     [(openrouter_newKey ''sk-or-a'' ''or-0000000a'')\<lparr>status := PAID_Balance, isPaid := True, remainingBalance := Some 5, lastUsed := 10\<rparr>,
      (openrouter_newKey ''sk-or-b'' ''or-0000000b'')\<lparr>status := PAID_Balance, isPaid := True, remainingBalance := Some 10, lastUsed := 1000\<rparr>]) \<and>
   (\<exists>i<length [(groq_newKey ''gsk-a'' ''groq-0000000a'')\<lparr>status := ACTIVE, lastUsed := 50\<rparr>,
      (groq_newKey ''gsk-b'' ''groq-0000000b'')\<lparr>status := ACTIVE, lastUsed := 20\<rparr>].
      groq_isAvailable ''groq-kimi'' 1000 ([(groq_newKey ''gsk-a'' ''groq-0000000a'')\<lparr>status := ACTIVE, lastUsed := 50\<rparr>,
      (groq_newKey ''gsk-b'' ''groq-0000000b'')\<lparr>status := ACTIVE, lastUsed := 20\<rparr>] ! i) \<and>
      lastUsed ([(groq_newKey ''gsk-a'' ''groq-0000000a'')\<lparr>status := ACTIVE, lastUsed := 50\<rparr>,
      (groq_newKey ''gsk-b'' ''groq-0000000b'')\<lparr>status := ACTIVE, lastUsed := 1000\<rparr>] ! i) = 1000 \<and>
      (\<forall>j<length [(groq_newKey ''gsk-a'' ''groq-0000000a'')\<lparr>status := ACTIVE, lastUsed := 50\<rparr>,
      (groq_newKey ''gsk-b'' ''groq-0000000b'')\<lparr>status := ACTIVE, lastUsed := 20\<rparr>].
          groq_isAvailable ''groq-kimi'' 1000 ([(groq_newKey ''gsk-a'' ''groq-0000000a'')\<lparr>status := ACTIVE, lastUsed := 50\<rparr>,
      (groq_newKey ''gsk-b'' ''groq-0000000b'')\<lparr>status := ACTIVE, lastUsed := 20\<rparr>] ! j) \<longrightarrow>
          groq_STATUS_PRIORITY (status ([(groq_newKey ''gsk-a'' ''groq-0000000a'')\<lparr>status := ACTIVE, lastUsed := 50\<rparr>,
      (groq_newKey ''gsk-b'' ''groq-0000000b'')\<lparr>status := ACTIVE, lastUsed := 20\<rparr>] ! j)) = groq_STATUS_PRIORITY (status ([(groq_newKey ''gsk-a'' ''groq-0000000a'')\<lparr>status := ACTIVE, lastUsed := 50\<rparr>,
      (groq_newKey ''gsk-b'' ''groq-0000000b'')\<lparr>status := ACTIVE, lastUsed := 20\<rparr>] ! i)) \<longrightarrow>
          lastUsed ([(groq_newKey ''gsk-a'' ''groq-0000000a'')\<lparr>status := ACTIVE, lastUsed := 50\<rparr>,
      (groq_newKey ''gsk-b'' ''groq-0000000b'')\<lparr>status := ACTIVE, lastUsed := 20\<rparr>] ! i) \<le> lastUsed ([(groq_newKey ''gsk-a'' ''groq-0000000a'')\<lparr>status := ACTIVE, lastUsed := 50\<rparr>,
      (groq_newKey ''gsk-b'' ''groq-0000000b'')\<lparr>status := ACTIVE, lastUsed := 20\<rparr>] ! j))) \<and>
   (\<exists>i<length [(openrouter_newKey ''sk-or-a'' ''or-0000000a'')\<lparr>status := PAID_Balance, isPaid := True, remainingBalance := Some 5, lastUsed := 10\<rparr>,
      (openrouter_newKey ''sk-or-b'' ''or-0000000b'')\<lparr>status := PAID_Balance, isPaid := True, remainingBalance := Some 10, lastUsed := 100\<rparr>].
      openrouter_isAvailable ''openrouter-paid'' 1000 ([(openrouter_newKey ''sk-or-a'' ''or-0000000a'')\<lparr>status := PAID_Balance, isPaid := True, remainingBalance := Some 5, lastUsed := 10\<rparr>,
      (openrouter_newKey ''sk-or-b'' ''or-0000000b'')\<lparr>status := PAID_Balance, isPaid := True, remainingBalance := Some 10, lastUsed := 100\<rparr>] ! i) \<and>
      lastUsed ([(openrouter_newKey ''sk-or-a'' ''or-0000000a'')\<lparr>status := PAID_Balance, isPaid := True, remainingBalance := Some 5, lastUsed := 10\<rparr>,
      (openrouter_newKey ''sk-or-b'' ''or-0000000b'')\<lparr>status := PAID_Balance, isPaid := True, remainingBalance := Some 10, lastUsed := 1000\<rparr>] ! i) = 1000 \<and>
      (\<forall>j<length [(openrouter_newKey ''sk-or-a'' ''or-0000000a'')\<lparr>status := PAID_Balance, isPaid := True, remainingBalance := Some 5, lastUsed := 10\<rparr>,
      (openrouter_newKey ''sk-or-b'' ''or-0000000b'')\<lparr>status := PAID_Balance, isPaid := True, remainingBalance := Some 10, lastUsed := 100\<rparr>].
          openrouter_isAvailable ''openrouter-paid'' 1000 ([(openrouter_newKey ''sk-or-a'' ''or-0000000a'')\<lparr>status := PAID_Balance, isPaid := True, remainingBalance := Some 5, lastUsed := 10\<rparr>,
      (openrouter_newKey ''sk-or-b'' ''or-0000000b'')\<lparr>status := PAID_Balance, isPaid := True, remainingBalance := Some 10, lastUsed := 100\<rparr>] ! j) \<longrightarrow>
          openrouter_STATUS_PRIORITY (status ([(openrouter_newKey ''sk-or-a'' ''or-0000000a'')\<lparr>status := PAID_Balance, isPaid := True, remainingBalance := Some 5, lastUsed := 10\<rparr>,
      (openrouter_newKey ''sk-or-b'' ''or-0000000b'')\<lparr>status := PAID_Balance, isPaid := True, remainingBalance := Some 10, lastUsed := 100\<rparr>] ! j)) = openrouter_STATUS_PRIORITY (status ([(openrouter_newKey ''sk-or-a'' ''or-0000000a'')\<lparr>status := PAID_Balance, isPaid := True, remainingBalance := Some 5, lastUsed := 10\<rparr>,
      (openrouter_newKey ''sk-or-b'' ''or-0000000b'')\<lparr>status := PAID_Balance, isPaid := True, remainingBalance := Some 10, lastUsed := 100\<rparr>] ! i)) \<longrightarrow>
          orElse (remainingBalance ([(openrouter_newKey ''sk-or-a'' ''or-0000000a'')\<lparr>status := PAID_Balance, isPaid := True, remainingBalance := Some 5, lastUsed := 10\<rparr>,
      (openrouter_newKey ''sk-or-b'' ''or-0000000b'')\<lparr>status := PAID_Balance, isPaid := True, remainingBalance := Some 10, lastUsed := 100\<rparr>] ! j)) 0 \<le> orElse (remainingBalance ([(openrouter_newKey ''sk-or-a'' ''or-0000000a'')\<lparr>status := PAID_Balance, isPaid := True, remainingBalance := Some 5, lastUsed := 10\<rparr>,
      (openrouter_newKey ''sk-or-b'' ''or-0000000b'')\<lparr>status := PAID_Balance, isPaid := True, remainingBalance := Some 10, lastUsed := 100\<rparr>] ! i)) 0))"
proof -
  note T = get_selects_least_recently_used
    [where gf = "\<lambda>m. ''groq-kimi''" and gm = "''kimi-k2''" and gnow = 1000
       and gkeys = "[(groq_newKey ''gsk-a'' ''groq-0000000a'')\<lparr>status := ACTIVE, lastUsed := 50\<rparr>,
      (groq_newKey ''gsk-b'' ''groq-0000000b'')\<lparr>status := ACTIVE, lastUsed := 20\<rparr>]"
       and gk = "(groq_newKey ''gsk-b'' ''groq-0000000b'')\<lparr>status := ACTIVE, lastUsed := 1000\<rparr>"
       and gkeys' = "[(groq_newKey ''gsk-a'' ''groq-0000000a'')\<lparr>status := ACTIVE, lastUsed := 50\<rparr>,
      (groq_newKey ''gsk-b'' ''groq-0000000b'')\<lparr>status := ACTIVE, lastUsed := 1000\<rparr>]"
       and rf = "\<lambda>m. ''openrouter-paid''" and rm = "''vendor/model''" and rnow = 1000
       and rkeys = "[(openrouter_newKey ''sk-or-a'' ''or-0000000a'')\<lparr>status := PAID_Balance, isPaid := True, remainingBalance := Some 5, lastUsed := 10\<rparr>,
      (openrouter_newKey ''sk-or-b'' ''or-0000000b'')\<lparr>status := PAID_Balance, isPaid := True, remainingBalance := Some 10, lastUsed := 100\<rparr>]"
       and rk = "(openrouter_newKey ''sk-or-b'' ''or-0000000b'')\<lparr>status := PAID_Balance, isPaid := True, remainingBalance := Some 10, lastUsed := 1000\<rparr>"
       and rkeys' = "[(openrouter_newKey ''sk-or-a'' ''or-0000000a'')\<lparr>status := PAID_Balance, isPaid := True, remainingBalance := Some 5, lastUsed := 10\<rparr>,
      (openrouter_newKey ''sk-or-b'' ''or-0000000b'')\<lparr>status := PAID_Balance, isPaid := True, remainingBalance := Some 10, lastUsed := 1000\<rparr>]"]
  from T groq_get_lru_example have "(\<exists>i<length [(groq_newKey ''gsk-a'' ''groq-0000000a'')\<lparr>status := ACTIVE, lastUsed := 50\<rparr>,
      (groq_newKey ''gsk-b'' ''groq-0000000b'')\<lparr>status := ACTIVE, lastUsed := 20\<rparr>].
      groq_isAvailable ''groq-kimi'' 1000 ([(groq_newKey ''gsk-a'' ''groq-0000000a'')\<lparr>status := ACTIVE, lastUsed := 50\<rparr>,
      (groq_newKey ''gsk-b'' ''groq-0000000b'')\<lparr>status := ACTIVE, lastUsed := 20\<rparr>] ! i) \<and>
      lastUsed ([(groq_newKey ''gsk-a'' ''groq-0000000a'')\<lparr>status := ACTIVE, lastUsed := 50\<rparr>,
      (groq_newKey ''gsk-b'' ''groq-0000000b'')\<lparr>status := ACTIVE, lastUsed := 1000\<rparr>] ! i) = 1000 \<and>
      (\<forall>j<length [(groq_newKey ''gsk-a'' ''groq-0000000a'')\<lparr>status := ACTIVE, lastUsed := 50\<rparr>,
      (groq_newKey ''gsk-b'' ''groq-0000000b'')\<lparr>status := ACTIVE, lastUsed := 20\<rparr>].
          groq_isAvailable ''groq-kimi'' 1000 ([(groq_newKey ''gsk-a'' ''groq-0000000a'')\<lparr>status := ACTIVE, lastUsed := 50\<rparr>,
      (groq_newKey ''gsk-b'' ''groq-0000000b'')\<lparr>status := ACTIVE, lastUsed := 20\<rparr>] ! j) \<longrightarrow>
          groq_STATUS_PRIORITY (status ([(groq_newKey ''gsk-a'' ''groq-0000000a'')\<lparr>status := ACTIVE, lastUsed := 50\<rparr>,
      (groq_newKey ''gsk-b'' ''groq-0000000b'')\<lparr>status := ACTIVE, lastUsed := 20\<rparr>] ! j)) = groq_STATUS_PRIORITY (status ([(groq_newKey ''gsk-a'' ''groq-0000000a'')\<lparr>status := ACTIVE, lastUsed := 50\<rparr>,
      (groq_newKey ''gsk-b'' ''groq-0000000b'')\<lparr>status := ACTIVE, lastUsed := 20\<rparr>] ! i)) \<longrightarrow>
          lastUsed ([(groq_newKey ''gsk-a'' ''groq-0000000a'')\<lparr>status := ACTIVE, lastUsed := 50\<rparr>,
      (groq_newKey ''gsk-b'' ''groq-0000000b'')\<lparr>status := ACTIVE, lastUsed := 20\<rparr>] ! i) \<le> lastUsed ([(groq_newKey ''gsk-a'' ''groq-0000000a'')\<lparr>status := ACTIVE, lastUsed := 50\<rparr>,
      (groq_newKey ''gsk-b'' ''groq-0000000b'')\<lparr>status := ACTIVE, lastUsed := 20\<rparr>] ! j)))"
    by blast
  moreover from T openrouter_get_balance_example have "(\<exists>i<length [(openrouter_newKey ''sk-or-a'' ''or-0000000a'')\<lparr>status := PAID_Balance, isPaid := True, remainingBalance := Some 5, lastUsed := 10\<rparr>,
      (openrouter_newKey ''sk-or-b'' ''or-0000000b'')\<lparr>status := PAID_Balance, isPaid := True, remainingBalance := Some 10, lastUsed := 100\<rparr>].
      openrouter_isAvailable ''openrouter-paid'' 1000 ([(openrouter_newKey ''sk-or-a'' ''or-0000000a'')\<lparr>status := PAID_Balance, isPaid := True, remainingBalance := Some 5, lastUsed := 10\<rparr>,
      (openrouter_newKey ''sk-or-b'' ''or-0000000b'')\<lparr>status := PAID_Balance, isPaid := True, remainingBalance := Some 10, lastUsed := 100\<rparr>] ! i) \<and>
      lastUsed ([(openrouter_newKey ''sk-or-a'' ''or-0000000a'')\<lparr>status := PAID_Balance, isPaid := True, remainingBalance := Some 5, lastUsed := 10\<rparr>,
      (openrouter_newKey ''sk-or-b'' ''or-0000000b'')\<lparr>status := PAID_Balance, isPaid := True, remainingBalance := Some 10, lastUsed := 1000\<rparr>] ! i) = 1000 \<and>
      (\<forall>j<length [(openrouter_newKey ''sk-or-a'' ''or-0000000a'')\<lparr>status := PAID_Balance, isPaid := True, remainingBalance := Some 5, lastUsed := 10\<rparr>,
      (openrouter_newKey ''sk-or-b'' ''or-0000000b'')\<lparr>status := PAID_Balance, isPaid := True, remainingBalance := Some 10, lastUsed := 100\<rparr>].
          openrouter_isAvailable ''openrouter-paid'' 1000 ([(openrouter_newKey ''sk-or-a'' ''or-0000000a'')\<lparr>status := PAID_Balance, isPaid := True, remainingBalance := Some 5, lastUsed := 10\<rparr>,
      (openrouter_newKey ''sk-or-b'' ''or-0000000b'')\<lparr>status := PAID_Balance, isPaid := True, remainingBalance := Some 10, lastUsed := 100\<rparr>] ! j) \<longrightarrow>
          openrouter_STATUS_PRIORITY (status ([(openrouter_newKey ''sk-or-a'' ''or-0000000a'')\<lparr>status := PAID_Balance, isPaid := True, remainingBalance := Some 5, lastUsed := 10\<rparr>,
      (openrouter_newKey ''sk-or-b'' ''or-0000000b'')\<lparr>status := PAID_Balance, isPaid := True, remainingBalance := Some 10, lastUsed := 100\<rparr>] ! j)) = openrouter_STATUS_PRIORITY (status ([(openrouter_newKey ''sk-or-a'' ''or-0000000a'')\<lparr>status := PAID_Balance, isPaid := True, remainingBalance := Some 5, lastUsed := 10\<rparr>,
      (openrouter_newKey ''sk-or-b'' ''or-0000000b'')\<lparr>status := PAID_Balance, isPaid := True, remainingBalance := Some 10, lastUsed := 100\<rparr>] ! i)) \<longrightarrow>
          orElse (remainingBalance ([(openrouter_newKey ''sk-or-a'' ''or-0000000a'')\<lparr>status := PAID_Balance, isPaid := True, remainingBalance := Some 5, lastUsed := 10\<rparr>,
      (openrouter_newKey ''sk-or-b'' ''or-0000000b'')\<lparr>status := PAID_Balance, isPaid := True, remainingBalance := Some 10, lastUsed := 100\<rparr>] ! j)) 0 \<le> orElse (remainingBalance ([(openrouter_newKey ''sk-or-a'' ''or-0000000a'')\<lparr>status := PAID_Balance, isPaid := True, remainingBalance := Some 5, lastUsed := 10\<rparr>,
      (openrouter_newKey ''sk-or-b'' ''or-0000000b'')\<lparr>status := PAID_Balance, isPaid := True, remainingBalance := Some 10, lastUsed := 100\<rparr>] ! i)) 0))"
    by blast
  ultimately show ?thesis using groq_get_lru_example openrouter_get_balance_example by blast
qed

section \<open>C8: a probe that failed in transport\<close>






text \<open>
  What reaches the hook: not the errors of the probe's own HTTP call. \<^verbatim>\<open>makeRequest\<close> catches
  them, and \<^verbatim>\<open>testKeyOrFail\<close> hands \<^verbatim>\<open>update\<close> a status. On Groq a call that fails with no
  response at all leaves the credential with the status \<^verbatim>\<open>UNKNOWN\<close> and \<^verbatim>\<open>lastChecked\<close> the
  time of the probe.
\<close>

lemma groq_probe_without_response:
  assumes "findByHash (hash k) keys = Some i"
  shows "\<exists>keys'. groq_testKeyOrFail k (Rejected None message) now keys = Inr keys' \<and>
           status (keys' ! i) = UNKNOWN \<and> lastChecked (keys' ! i) = now"
proof -
  from assms have i: "i < length keys" by (simp add: findByHash_Some)
  have "fst (groq_testKey (groq_makeRequest (Rejected None message))) = UNKNOWN"
    by (simp add: groq_testKey_def groq_makeRequest_def isModelsResponse_def isErrorResponse_def)
  then show ?thesis
    using i
    by (simp add: groq_testKeyOrFail_def Let_def groq_update_found [OF assms] groq_assign_def
          assignKey_def orElse_def groq_deriveFlags_def groq_noUpdate_def)
qed

section \<open>C9: running the mutator chain twice\<close>

lemma map_of_setAssoc: "map_of (setAssoc n v hs) = (map_of hs)(n \<mapsto> v)"
  by (induction hs) (auto simp: fun_eq_iff)

lemma removeAssoc_setAssoc:
  "map_of hs n = None \<Longrightarrow> removeAssoc n (setAssoc n v hs) = hs"
  by (induction hs) (auto simp: removeAssoc_def split: if_splits)

lemma setAssoc_setAssoc:
  "map_of hs n = Some old \<Longrightarrow> setAssoc n old (setAssoc n v hs) = hs"
  by (induction hs) (auto split: if_splits)

lemma undo_header:
  "undoChange (HeaderChange n (map_of (headers r) n)) (r\<lparr>headers := setAssoc n v (headers r)\<rparr>, k)
     = (r, k)"
  by (cases "map_of (headers r) n") (simp_all add: removeAssoc_setAssoc setAssoc_setAssoc)

subsection \<open>The change list leads back to the snapshot\<close>

lemma recorded_newManager: "recorded (newManager req)"
  by (simp add: recorded_def newManager_def)

lemma recorded_setPath: "recorded m \<Longrightarrow> recorded (setPath p m)"
  by (simp add: recorded_def setPath_def)

lemma recorded_setHeader: "recorded m \<Longrightarrow> recorded (setHeader n v m)"
  by (simp add: recorded_def setHeader_def undo_header)

lemma recorded_setBody: "recorded m \<Longrightarrow> recorded (setBody b m)"
  by (simp add: recorded_def setBody_def)

lemma recorded_setKey: "recorded m \<Longrightarrow> recorded (setKey k m)"
  by (simp add: recorded_def setKey_def)

lemma revert_recorded: "recorded m \<Longrightarrow> revert m = newManager (original m)"
  by (simp add: recorded_def revert_def newManager_def Let_def)


subsection \<open>What one run of a chain sends\<close>

lemma addKey_finalizeBody_Inr:
  assumes run: "runChain [addKey poolGet, managerOnly (finalizeBody ser)] now (m, keys) = Inr (m', keys')"
    and rec: "recorded m"
  shows "\<exists>k. poolGet (model (request m)) now keys = Inr (k, keys') \<and>
             recorded m' \<and> original m' = original m \<and>
             request m' =
               (request m)
                 \<lparr> headers :=
                     setAssoc ''content-length'' (decimal (length (ser (body (request m)))))
                       (setAssoc ''authorization''
                          (''Bearer '' @ (case key k of None \<Rightarrow> ''undefined'' | Some secret \<Rightarrow> secret))
                          (headers (request m))),
                   body := ser (body (request m)) \<rparr>"
proof -
  from run obtain m1 where
    a: "addKey poolGet now (m, keys) = Inr (m1, keys')"
    and m': "m' = finalizeBody ser m1"
    by (auto simp: managerOnly_def split: sum.splits)
  from a obtain k where
    g: "poolGet (model (request m)) now keys = Inr (k, keys')"
    and m1: "m1 = setHeader ''authorization''
                 (''Bearer '' @ (case key k of None \<Rightarrow> ''undefined'' | Some secret \<Rightarrow> secret))
                 (setKey k m)"
    by (auto simp: addKey_def split: sum.splits)
  have "recorded m1" unfolding m1 by (intro recorded_setHeader recorded_setKey rec)
  then have r: "recorded m'"
    unfolding m' finalizeBody_def Let_def by (intro recorded_setHeader recorded_setBody)
  have o: "original m' = original m"
    by (simp add: m' m1 finalizeBody_def setHeader_def setBody_def setKey_def Let_def)
  have q: "request m' =
               (request m)
                 \<lparr> headers :=
                     setAssoc ''content-length'' (decimal (length (ser (body (request m)))))
                       (setAssoc ''authorization''
                          (''Bearer '' @ (case key k of None \<Rightarrow> ''undefined'' | Some secret \<Rightarrow> secret))
                          (headers (request m))),
                   body := ser (body (request m)) \<rparr>"
    by (simp add: m' m1 finalizeBody_def setHeader_def setBody_def setKey_def Let_def)
  from g r o q show ?thesis by blast
qed

text \<open>Two requests that a chain made of the same request, with two credentials.\<close>

lemma same_but_credential:
  assumes "r1 = r\<lparr> headers := setAssoc ''content-length'' c (setAssoc ''authorization'' a1 (headers r)),
                   body := b \<rparr>"
    and "r2 = r\<lparr> headers := setAssoc ''content-length'' c (setAssoc ''authorization'' a2 (headers r)),
                   body := b \<rparr>"
  shows "url r1 = url r2 \<and> model r1 = model r2 \<and> body r1 = body r2 \<and>
         (\<forall>n. n \<noteq> ''authorization'' \<longrightarrow> map_of (headers r1) n = map_of (headers r2) n) \<and>
         (map_of (headers r1) ''authorization'' = map_of (headers r2) ''authorization''
            \<longrightarrow> r1 = r2)"
proof -
  have "map_of (headers r1) ''authorization'' = Some a1"
    and "map_of (headers r2) ''authorization'' = Some a2"
    by (simp_all add: assms map_of_setAssoc)
  then have "map_of (headers r1) ''authorization'' = map_of (headers r2) ''authorization''
            \<longrightarrow> r1 = r2"
    by (simp add: assms)
  moreover have "\<forall>n. n \<noteq> ''authorization'' \<longrightarrow> map_of (headers r1) n = map_of (headers r2) n"
    by (simp add: assms map_of_setAssoc)
  ultimately show ?thesis by (simp add: assms)
qed

lemma runTwice_Inr:
  assumes "runTwice chain now1 now2 req keys = Inr (r1, r2)"
  obtains m1 keys1 m2 keys2 where
    "runChain chain now1 (newManager req, keys) = Inr (m1, keys1)"
    "runChain chain now2 (revert m1, keys1) = Inr (m2, keys2)"
    "r1 = request m1" "r2 = request m2"
  using assms by (auto simp: runTwice_def split: sum.splits)

text \<open>
  After a run of either chain on a fresh manager, \<open>revert\<close> undoes the recorded changes and
  the manager is the fresh one again.
\<close>

lemma revert_restores:
  "(runChain (groq_mutations gf gser) gnow (newManager greq, gkeys) = Inr (gm, gkeys')
      \<longrightarrow> revert gm = newManager greq) \<and>
   (runChain (openrouter_mutations rf rser) rnow (newManager rreq, rkeys) = Inr (rm, rkeys')
      \<longrightarrow> revert rm = newManager rreq)"
proof (rule conjI; rule impI)
  assume run: "runChain (groq_mutations gf gser) gnow (newManager greq, gkeys) = Inr (gm, gkeys')"
  from addKey_finalizeBody_Inr [OF run [unfolded groq_mutations_def] recorded_newManager]
  have "recorded gm" and "original gm = original (newManager greq :: GroqKey ProxyReqManager)"
    by blast+
  then show "revert gm = newManager greq"
    using revert_recorded [of gm] by (simp add: newManager_def)
next
  assume run: "runChain (openrouter_mutations rf rser) rnow (newManager rreq, rkeys) = Inr (rm, rkeys')"
  let ?ms = "selectUpstreamPath (newManager rreq :: OpenRouterKey ProxyReqManager)"
  have step: "runChain (openrouter_mutations rf rser) rnow (newManager rreq, rkeys) =
      runChain [addKey (openrouter_get rf), managerOnly (finalizeBody rser)] rnow (?ms, rkeys)"
    by (simp add: openrouter_mutations_def managerOnly_def)
  have recs: "recorded ?ms"
    unfolding selectUpstreamPath_def Let_def by (intro recorded_setPath recorded_newManager)
  have os: "original ?ms = rreq"
    by (simp add: selectUpstreamPath_def setPath_def newManager_def Let_def)
  from addKey_finalizeBody_Inr [OF run [unfolded step] recs]
  have "recorded rm" and "original rm = original ?ms" by blast+
  then show "revert rm = newManager rreq"
    using revert_recorded [of rm] os by simp
qed

text \<open>On the source alone: two \<^verbatim>\<open>get\<close> calls in a row for the same model return two keys.\<close>

lemma openrouter_get_rotates:
  "openrouter_get (\<lambda>m. ''openrouter-free'') ''vendor/model:free'' 1000
      [(openrouter_newKey ''sk-or-a'' ''or-0000000a'')\<lparr>status := FREE_Active, isFreeTier := True\<rparr>,
       (openrouter_newKey ''sk-or-b'' ''or-0000000b'')\<lparr>status := FREE_Active, isFreeTier := True\<rparr>] =
     Inr ((openrouter_newKey ''sk-or-a'' ''or-0000000a'')\<lparr>status := FREE_Active, isFreeTier := True, lastUsed := 1000\<rparr>,
          [(openrouter_newKey ''sk-or-a'' ''or-0000000a'')\<lparr>status := FREE_Active, isFreeTier := True, lastUsed := 1000\<rparr>,
           (openrouter_newKey ''sk-or-b'' ''or-0000000b'')\<lparr>status := FREE_Active, isFreeTier := True\<rparr>]) \<and>
   openrouter_get (\<lambda>m. ''openrouter-free'') ''vendor/model:free'' 2000
      [(openrouter_newKey ''sk-or-a'' ''or-0000000a'')\<lparr>status := FREE_Active, isFreeTier := True, lastUsed := 1000\<rparr>,
       (openrouter_newKey ''sk-or-b'' ''or-0000000b'')\<lparr>status := FREE_Active, isFreeTier := True\<rparr>] =
     Inr ((openrouter_newKey ''sk-or-b'' ''or-0000000b'')\<lparr>status := FREE_Active, isFreeTier := True, lastUsed := 2000\<rparr>,
          [(openrouter_newKey ''sk-or-a'' ''or-0000000a'')\<lparr>status := FREE_Active, isFreeTier := True, lastUsed := 1000\<rparr>,
           (openrouter_newKey ''sk-or-b'' ''or-0000000b'')\<lparr>status := FREE_Active, isFreeTier := True, lastUsed := 2000\<rparr>])"
  by (simp add: openrouter_get_def openrouter_availableKeys_def openrouter_isAvailable_def
        openrouter_compare_def openrouter_newKey_def orElse_def Let_def)

lemma groq_get_rotates:
  "groq_get (\<lambda>m. ''groq-kimi'') ''kimi-k2'' 1000
      [(groq_newKey ''gsk-a'' ''groq-0000000a'')\<lparr>status := ACTIVE\<rparr>,
       (groq_newKey ''gsk-b'' ''groq-0000000b'')\<lparr>status := ACTIVE\<rparr>] =
     Inr ((groq_newKey ''gsk-a'' ''groq-0000000a'')\<lparr>status := ACTIVE, lastUsed := 1000\<rparr>,
          [(groq_newKey ''gsk-a'' ''groq-0000000a'')\<lparr>status := ACTIVE, lastUsed := 1000\<rparr>,
           (groq_newKey ''gsk-b'' ''groq-0000000b'')\<lparr>status := ACTIVE\<rparr>]) \<and>
   groq_get (\<lambda>m. ''groq-kimi'') ''kimi-k2'' 2000
      [(groq_newKey ''gsk-a'' ''groq-0000000a'')\<lparr>status := ACTIVE, lastUsed := 1000\<rparr>,
       (groq_newKey ''gsk-b'' ''groq-0000000b'')\<lparr>status := ACTIVE\<rparr>] =
     Inr ((groq_newKey ''gsk-b'' ''groq-0000000b'')\<lparr>status := ACTIVE, lastUsed := 2000\<rparr>,
          [(groq_newKey ''gsk-a'' ''groq-0000000a'')\<lparr>status := ACTIVE, lastUsed := 1000\<rparr>,
           (groq_newKey ''gsk-b'' ''groq-0000000b'')\<lparr>status := ACTIVE, lastUsed := 2000\<rparr>])"
  by (simp add: groq_get_def groq_availableKeys_def groq_isAvailable_def
        groq_compare_def groq_newKey_def Let_def)

lemma openrouter_runTwice_example:
  "runTwice (openrouter_mutations (\<lambda>m. ''openrouter-free'') (\<lambda>b. b)) 1000 2000
      \<lparr>url = ''/v1/chat/completions?x=1'', headers = [(''content-type'', ''application/json'')],
        model = ''vendor/model:free'', body = ''{}''\<rparr>
      [(openrouter_newKey ''sk-or-a'' ''or-0000000a'')\<lparr>status := FREE_Active, isFreeTier := True\<rparr>,
       (openrouter_newKey ''sk-or-b'' ''or-0000000b'')\<lparr>status := FREE_Active, isFreeTier := True\<rparr>] =
   Inr (\<lparr>url = ''/chat/completions?x=1'',
           headers = [(''content-type'', ''application/json''),
                      (''authorization'', ''Bearer sk-or-a''),
                      (''content-length'', ''2'')],
           model = ''vendor/model:free'', body = ''{}''\<rparr>,
        \<lparr>url = ''/chat/completions?x=1'',
           headers = [(''content-type'', ''application/json''),
                      (''authorization'', ''Bearer sk-or-b''),
                      (''content-length'', ''2'')],
           model = ''vendor/model:free'', body = ''{}''\<rparr>)"
  by (simp add: runTwice_def openrouter_mutations_def groq_mutations_def managerOnly_def addKey_def finalizeBody_def selectUpstreamPath_def setPath_def setHeader_def setBody_def setKey_def revert_def removeAssoc_def newManager_def startsWith_def Let_def digit_def openrouter_get_rotates [simplified openrouter_newKey_def, simplified] openrouter_newKey_def)

lemma groq_runTwice_example:
  "runTwice (groq_mutations (\<lambda>m. ''groq-kimi'') (\<lambda>b. b)) 1000 2000
      \<lparr>url = ''/v1/chat/completions'', headers = [(''content-type'', ''application/json'')],
        model = ''kimi-k2'', body = ''{}''\<rparr>
      [(groq_newKey ''gsk-a'' ''groq-0000000a'')\<lparr>status := ACTIVE\<rparr>,
       (groq_newKey ''gsk-b'' ''groq-0000000b'')\<lparr>status := ACTIVE\<rparr>] =
   Inr (\<lparr>url = ''/v1/chat/completions'',
           headers = [(''content-type'', ''application/json''),
                      (''authorization'', ''Bearer gsk-a''),
                      (''content-length'', ''2'')],
           model = ''kimi-k2'', body = ''{}''\<rparr>,
        \<lparr>url = ''/v1/chat/completions'',
           headers = [(''content-type'', ''application/json''),
                      (''authorization'', ''Bearer gsk-b''),
                      (''content-length'', ''2'')],
           model = ''kimi-k2'', body = ''{}''\<rparr>)"
  by (simp add: runTwice_def openrouter_mutations_def groq_mutations_def managerOnly_def addKey_def finalizeBody_def selectUpstreamPath_def setPath_def setHeader_def setBody_def setKey_def revert_def removeAssoc_def newManager_def startsWith_def Let_def digit_def groq_get_rotates [simplified groq_newKey_def, simplified] groq_newKey_def)

text \<open>
  The claim of C9 as it is written fails on the OpenRouter chain, with the manager and the
  mutators \<^verbatim>\<open>addKey\<close> and \<^verbatim>\<open>finalizeBody\<close> modelled from the spec: \<^verbatim>\<open>addKey\<close> calls \<^verbatim>\<open>get\<close>, and
  \<^verbatim>\<open>get\<close> reads the \<^verbatim>\<open>lastUsed\<close> that the previous run's \<^verbatim>\<open>get\<close> wrote. With two free keys in the
  pool the first run sends the first key and the second run, started from the restored
  original request, sends the second.
\<close>

theorem chain_rerun_counterexample:
  "runTwice (openrouter_mutations (\<lambda>m. ''openrouter-free'') (\<lambda>b. b)) 1000 2000
      \<lparr>url = ''/v1/chat/completions?x=1'', headers = [(''content-type'', ''application/json'')],
        model = ''vendor/model:free'', body = ''{}''\<rparr>
      [(openrouter_newKey ''sk-or-a'' ''or-0000000a'')\<lparr>status := FREE_Active, isFreeTier := True\<rparr>,
       (openrouter_newKey ''sk-or-b'' ''or-0000000b'')\<lparr>status := FREE_Active, isFreeTier := True\<rparr>] =
   Inr (\<lparr>url = ''/chat/completions?x=1'',
           headers = [(''content-type'', ''application/json''),
                      (''authorization'', ''Bearer sk-or-a''),
                      (''content-length'', ''2'')],
           model = ''vendor/model:free'', body = ''{}''\<rparr>,
        \<lparr>url = ''/chat/completions?x=1'',
           headers = [(''content-type'', ''application/json''),
                      (''authorization'', ''Bearer sk-or-b''),
                      (''content-length'', ''2'')],
           model = ''vendor/model:free'', body = ''{}''\<rparr>) \<and>
   \<lparr>url = ''/chat/completions?x=1'',
           headers = [(''content-type'', ''application/json''),
                      (''authorization'', ''Bearer sk-or-a''),
                      (''content-length'', ''2'')],
           model = ''vendor/model:free'', body = ''{}''\<rparr> \<noteq>
   \<lparr>url = ''/chat/completions?x=1'',
           headers = [(''content-type'', ''application/json''),
                      (''authorization'', ''Bearer sk-or-b''),
                      (''content-length'', ''2'')],
           model = ''vendor/model:free'', body = ''{}''\<rparr>"
  using openrouter_runTwice_example by simp

text \<open>
  C9, amended. For the two provider chains at hand, Groq's \<^verbatim>\<open>[addKey, finalizeBody]\<close> and
  OpenRouter's \<^verbatim>\<open>[selectUpstreamPath, addKey, finalizeBody]\<close>: running the chain, reverting
  the manager through its recorded changes and running the chain again produces two
  outbound requests with the same URL, the same model, the same body and the same value for
  every header other than \<^verbatim>\<open>authorization\<close>; the two requests are identical whenever they
  carry the same \<^verbatim>\<open>authorization\<close> header, that is whenever \<^verbatim>\<open>get\<close> handed out the same secret
  in both runs.
\<close>

theorem chain_rerun_same_but_credential:
  "(runTwice (groq_mutations gf gser) gnow1 gnow2 greq gkeys = Inr (g1, g2) \<longrightarrow>
      url g1 = url g2 \<and> model g1 = model g2 \<and> body g1 = body g2 \<and>
      (\<forall>n. n \<noteq> ''authorization'' \<longrightarrow> map_of (headers g1) n = map_of (headers g2) n) \<and>
      (map_of (headers g1) ''authorization'' = map_of (headers g2) ''authorization''
         \<longrightarrow> g1 = g2)) \<and>
   (runTwice (openrouter_mutations rf rser) rnow1 rnow2 rreq rkeys = Inr (r1, r2) \<longrightarrow>
      url r1 = url r2 \<and> model r1 = model r2 \<and> body r1 = body r2 \<and>
      (\<forall>n. n \<noteq> ''authorization'' \<longrightarrow> map_of (headers r1) n = map_of (headers r2) n) \<and>
      (map_of (headers r1) ''authorization'' = map_of (headers r2) ''authorization''
         \<longrightarrow> r1 = r2))"
proof (rule conjI; rule impI)
  assume "runTwice (groq_mutations gf gser) gnow1 gnow2 greq gkeys = Inr (g1, g2)"
  then obtain m1 keys1 m2 keys2 where
    run1: "runChain (groq_mutations gf gser) gnow1 (newManager greq, gkeys) = Inr (m1, keys1)"
    and run2: "runChain (groq_mutations gf gser) gnow2 (revert m1, keys1) = Inr (m2, keys2)"
    and g: "g1 = request m1" "g2 = request m2"
    by (rule runTwice_Inr)
  let ?m0 = "newManager greq :: GroqKey ProxyReqManager"
  from addKey_finalizeBody_Inr [OF run1 [unfolded groq_mutations_def] recorded_newManager]
  obtain k1 :: GroqKey where rec1: "recorded m1" and o1: "original m1 = original ?m0"
    and q1: "request m1 =
               (request ?m0)
                 \<lparr> headers :=
                     setAssoc ''content-length'' (decimal (length (gser (body (request ?m0)))))
                       (setAssoc ''authorization''
                          (''Bearer '' @ (case key k1 of None \<Rightarrow> ''undefined'' | Some secret \<Rightarrow> secret))
                          (headers (request ?m0))),
                   body := gser (body (request ?m0)) \<rparr>"
    by blast
  have fresh: "revert m1 = ?m0"
    using revert_recorded [OF rec1] o1 by (simp add: newManager_def)
  from addKey_finalizeBody_Inr
    [OF run2 [unfolded groq_mutations_def fresh] recorded_newManager]
  obtain k2 :: GroqKey where
    q2: "request m2 =
               (request ?m0)
                 \<lparr> headers :=
                     setAssoc ''content-length'' (decimal (length (gser (body (request ?m0)))))
                       (setAssoc ''authorization''
                          (''Bearer '' @ (case key k2 of None \<Rightarrow> ''undefined'' | Some secret \<Rightarrow> secret))
                          (headers (request ?m0))),
                   body := gser (body (request ?m0)) \<rparr>"
    by blast
  show "url g1 = url g2 \<and> model g1 = model g2 \<and> body g1 = body g2 \<and>
      (\<forall>n. n \<noteq> ''authorization'' \<longrightarrow> map_of (headers g1) n = map_of (headers g2) n) \<and>
      (map_of (headers g1) ''authorization'' = map_of (headers g2) ''authorization''
         \<longrightarrow> g1 = g2)"
    unfolding g by (rule same_but_credential [OF q1 q2])
next
  assume "runTwice (openrouter_mutations rf rser) rnow1 rnow2 rreq rkeys = Inr (r1, r2)"
  then obtain m1 keys1 m2 keys2 where
    run1: "runChain (openrouter_mutations rf rser) rnow1 (newManager rreq, rkeys) = Inr (m1, keys1)"
    and run2: "runChain (openrouter_mutations rf rser) rnow2 (revert m1, keys1) = Inr (m2, keys2)"
    and r: "r1 = request m1" "r2 = request m2"
    by (rule runTwice_Inr)
  let ?m0 = "newManager rreq :: OpenRouterKey ProxyReqManager"
  let ?ms = "selectUpstreamPath ?m0"
  have step: "runChain (openrouter_mutations rf rser) now (m, keys) =
      runChain [addKey (openrouter_get rf), managerOnly (finalizeBody rser)] now
        (selectUpstreamPath m, keys)" for now m keys
    by (simp add: openrouter_mutations_def managerOnly_def)
  have recs: "recorded ?ms"
    unfolding selectUpstreamPath_def Let_def by (intro recorded_setPath recorded_newManager)
  have os: "original ?ms = rreq"
    by (simp add: selectUpstreamPath_def setPath_def newManager_def Let_def)
  from addKey_finalizeBody_Inr [OF run1 [unfolded step] recs]
  obtain k1 :: OpenRouterKey where rec1: "recorded m1" and o1: "original m1 = original ?ms"
    and q1: "request m1 =
               (request ?ms)
                 \<lparr> headers :=
                     setAssoc ''content-length'' (decimal (length (rser (body (request ?ms)))))
                       (setAssoc ''authorization''
                          (''Bearer '' @ (case key k1 of None \<Rightarrow> ''undefined'' | Some secret \<Rightarrow> secret))
                          (headers (request ?ms))),
                   body := rser (body (request ?ms)) \<rparr>"
    by blast
  have fresh: "revert m1 = ?m0"
    using revert_recorded [OF rec1] o1 os by simp
  from addKey_finalizeBody_Inr [OF run2 [unfolded step fresh] recs]
  obtain k2 :: OpenRouterKey where
    q2: "request m2 =
               (request ?ms)
                 \<lparr> headers :=
                     setAssoc ''content-length'' (decimal (length (rser (body (request ?ms)))))
                       (setAssoc ''authorization''
                          (''Bearer '' @ (case key k2 of None \<Rightarrow> ''undefined'' | Some secret \<Rightarrow> secret))
                          (headers (request ?ms))),
                   body := rser (body (request ?ms)) \<rparr>"
    by blast
  show "url r1 = url r2 \<and> model r1 = model r2 \<and> body r1 = body r2 \<and>
      (\<forall>n. n \<noteq> ''authorization'' \<longrightarrow> map_of (headers r1) n = map_of (headers r2) n) \<and>
      (map_of (headers r1) ''authorization'' = map_of (headers r2) ''authorization''
         \<longrightarrow> r1 = r2)"
    unfolding r by (rule same_but_credential [OF q1 q2])
qed

text \<open>The theorem at two runs of each chain on a pool of two usable keys.\<close>

theorem chain_rerun_same_but_credential_witness:
  "runTwice (groq_mutations (\<lambda>m. ''groq-kimi'') (\<lambda>b. b)) 1000 2000
      \<lparr>url = ''/v1/chat/completions'', headers = [(''content-type'', ''application/json'')],
        model = ''kimi-k2'', body = ''{}''\<rparr>
      [(groq_newKey ''gsk-a'' ''groq-0000000a'')\<lparr>status := ACTIVE\<rparr>,
       (groq_newKey ''gsk-b'' ''groq-0000000b'')\<lparr>status := ACTIVE\<rparr>] =
   Inr (\<lparr>url = ''/v1/chat/completions'',
           headers = [(''content-type'', ''application/json''),
                      (''authorization'', ''Bearer gsk-a''),
                      (''content-length'', ''2'')],
           model = ''kimi-k2'', body = ''{}''\<rparr>,
        \<lparr>url = ''/v1/chat/completions'',
           headers = [(''content-type'', ''application/json''),
                      (''authorization'', ''Bearer gsk-b''),
                      (''content-length'', ''2'')],
           model = ''kimi-k2'', body = ''{}''\<rparr>) \<and>
   runTwice (openrouter_mutations (\<lambda>m. ''openrouter-free'') (\<lambda>b. b)) 1000 2000
      \<lparr>url = ''/v1/chat/completions?x=1'', headers = [(''content-type'', ''application/json'')],
        model = ''vendor/model:free'', body = ''{}''\<rparr>
      [(openrouter_newKey ''sk-or-a'' ''or-0000000a'')\<lparr>status := FREE_Active, isFreeTier := True\<rparr>,
       (openrouter_newKey ''sk-or-b'' ''or-0000000b'')\<lparr>status := FREE_Active, isFreeTier := True\<rparr>] =
   Inr (\<lparr>url = ''/chat/completions?x=1'',
           headers = [(''content-type'', ''application/json''),
                      (''authorization'', ''Bearer sk-or-a''),
                      (''content-length'', ''2'')],
           model = ''vendor/model:free'', body = ''{}''\<rparr>,
        \<lparr>url = ''/chat/completions?x=1'',
           headers = [(''content-type'', ''application/json''),
                      (''authorization'', ''Bearer sk-or-b''),
                      (''content-length'', ''2'')],
           model = ''vendor/model:free'', body = ''{}''\<rparr>) \<and>
   url (\<lparr>url = ''/v1/chat/completions'',
           headers = [(''content-type'', ''application/json''),
                      (''authorization'', ''Bearer gsk-a''),
                      (''content-length'', ''2'')],
           model = ''kimi-k2'', body = ''{}''\<rparr>) =
   url (\<lparr>url = ''/v1/chat/completions'',
           headers = [(''content-type'', ''application/json''),
                      (''authorization'', ''Bearer gsk-b''),
                      (''content-length'', ''2'')],
           model = ''kimi-k2'', body = ''{}''\<rparr>) \<and>
   body (\<lparr>url = ''/v1/chat/completions'',
           headers = [(''content-type'', ''application/json''),
                      (''authorization'', ''Bearer gsk-a''),
                      (''content-length'', ''2'')],
           model = ''kimi-k2'', body = ''{}''\<rparr>) =
   body (\<lparr>url = ''/v1/chat/completions'',
           headers = [(''content-type'', ''application/json''),
                      (''authorization'', ''Bearer gsk-b''),
                      (''content-length'', ''2'')],
           model = ''kimi-k2'', body = ''{}''\<rparr>) \<and>
   url (\<lparr>url = ''/chat/completions?x=1'',
           headers = [(''content-type'', ''application/json''),
                      (''authorization'', ''Bearer sk-or-a''),
                      (''content-length'', ''2'')],
           model = ''vendor/model:free'', body = ''{}''\<rparr>) =
   url (\<lparr>url = ''/chat/completions?x=1'',
           headers = [(''content-type'', ''application/json''),
                      (''authorization'', ''Bearer sk-or-b''),
                      (''content-length'', ''2'')],
           model = ''vendor/model:free'', body = ''{}''\<rparr>) \<and>
   body (\<lparr>url = ''/chat/completions?x=1'',
           headers = [(''content-type'', ''application/json''),
                      (''authorization'', ''Bearer sk-or-a''),
                      (''content-length'', ''2'')],
           model = ''vendor/model:free'', body = ''{}''\<rparr>) =
   body (\<lparr>url = ''/chat/completions?x=1'',
           headers = [(''content-type'', ''application/json''),
                      (''authorization'', ''Bearer sk-or-b''),
                      (''content-length'', ''2'')],
           model = ''vendor/model:free'', body = ''{}''\<rparr>)"
  using chain_rerun_same_but_credential
          [where gf = "(\<lambda>m. ''groq-kimi'')" and gser = "\<lambda>b. b" and ?gnow1.0 = 1000 and ?gnow2.0 = 2000
             and greq = "\<lparr>url = ''/v1/chat/completions'', headers = [(''content-type'', ''application/json'')],
        model = ''kimi-k2'', body = ''{}''\<rparr>"
             and gkeys = "[(groq_newKey ''gsk-a'' ''groq-0000000a'')\<lparr>status := ACTIVE\<rparr>,
       (groq_newKey ''gsk-b'' ''groq-0000000b'')\<lparr>status := ACTIVE\<rparr>]"
             and ?g1.0 = "\<lparr>url = ''/v1/chat/completions'',
           headers = [(''content-type'', ''application/json''),
                      (''authorization'', ''Bearer gsk-a''),
                      (''content-length'', ''2'')],
           model = ''kimi-k2'', body = ''{}''\<rparr>"
             and ?g2.0 = "\<lparr>url = ''/v1/chat/completions'',
           headers = [(''content-type'', ''application/json''),
                      (''authorization'', ''Bearer gsk-b''),
                      (''content-length'', ''2'')],
           model = ''kimi-k2'', body = ''{}''\<rparr>"
             and rf = "(\<lambda>m. ''openrouter-free'')" and rser = "\<lambda>b. b" and ?rnow1.0 = 1000 and ?rnow2.0 = 2000
             and rreq = "\<lparr>url = ''/v1/chat/completions?x=1'', headers = [(''content-type'', ''application/json'')],
        model = ''vendor/model:free'', body = ''{}''\<rparr>"
             and rkeys = "[(openrouter_newKey ''sk-or-a'' ''or-0000000a'')\<lparr>status := FREE_Active, isFreeTier := True\<rparr>,
       (openrouter_newKey ''sk-or-b'' ''or-0000000b'')\<lparr>status := FREE_Active, isFreeTier := True\<rparr>]"
             and ?r1.0 = "\<lparr>url = ''/chat/completions?x=1'',
           headers = [(''content-type'', ''application/json''),
                      (''authorization'', ''Bearer sk-or-a''),
                      (''content-length'', ''2'')],
           model = ''vendor/model:free'', body = ''{}''\<rparr>"
             and ?r2.0 = "\<lparr>url = ''/chat/completions?x=1'',
           headers = [(''content-type'', ''application/json''),
                      (''authorization'', ''Bearer sk-or-b''),
                      (''content-length'', ''2'')],
           model = ''vendor/model:free'', body = ''{}''\<rparr>"]
        groq_runTwice_example openrouter_runTwice_example
  by blast

section \<open>C10: an unknown hash\<close>

text \<open>
  C10. For a hash that no record of the pool has, \<^verbatim>\<open>incrementUsage\<close> returns with the pool
  unchanged, while \<^verbatim>\<open>update\<close> and \<^verbatim>\<open>markRateLimited\<close> throw a TypeError, in both providers.
\<close>

theorem unknown_hash_noop_or_throw:
  assumes "h \<notin> hash ` set gkeys" and "h \<notin> hash ` set rkeys"
  shows "incrementUsage h fam usage gkeys = gkeys \<and>
         incrementUsage h fam usage rkeys = rkeys \<and>
         groq_update h gupd now gkeys = Inl TypeError \<and>
         openrouter_update h rupd now rkeys = Inl TypeError \<and>
         groq_markRateLimited h now gkeys = Inl TypeError \<and>
         openrouter_markRateLimited h now rkeys = Inl TypeError"
proof -
  from assms have g: "findByHash h gkeys = None" and r: "findByHash h rkeys = None"
    by (simp_all add: findByHash_None_iff)
  show ?thesis
    by (simp add: g r incrementUsage_def groq_update_def openrouter_update_def
          groq_markRateLimited_def openrouter_markRateLimited_def)
qed

text \<open>The theorem at pools of one fresh key and a hash that is not theirs.\<close>

theorem unknown_hash_noop_or_throw_witness:
  "''groq-ffffffff'' \<notin> hash ` set [groq_newKey ''gsk-a'' ''groq-0000000a''] \<and>
   ''groq-ffffffff'' \<notin> hash ` set [openrouter_newKey ''sk-or-a'' ''or-0000000a''] \<and>
   incrementUsage ''groq-ffffffff'' ''groq-kimi'' \<lparr>inputTokens = 10, outputTokens = 20\<rparr>
     [groq_newKey ''gsk-a'' ''groq-0000000a''] = [groq_newKey ''gsk-a'' ''groq-0000000a''] \<and>
   groq_update ''groq-ffffffff'' (groq_noUpdate\<lparr>status' := Some ACTIVE\<rparr>) 1000
     [groq_newKey ''gsk-a'' ''groq-0000000a''] = Inl TypeError \<and>
   openrouter_markRateLimited ''groq-ffffffff'' 1000
     [openrouter_newKey ''sk-or-a'' ''or-0000000a''] = Inl TypeError"
proof -
  have g: "''groq-ffffffff'' \<notin> hash ` set [groq_newKey ''gsk-a'' ''groq-0000000a'']"
    by (simp add: groq_newKey_def)
  have r: "''groq-ffffffff'' \<notin> hash ` set [openrouter_newKey ''sk-or-a'' ''or-0000000a'']"
    by (simp add: openrouter_newKey_def)
  from unknown_hash_noop_or_throw [OF g r] g r show ?thesis by blast
qed

end
